theory Spec2Isabelle
  imports Complex_Main "HOL-Library.Product_Lexorder" "HOL-Library.List_Lexorder"
begin

section \<open>Text: Python strings as lists of code points\<close>

text \<open>
  The search module works on Python 3 \<open>str\<close> values, which are sequences of Unicode code
  points.  A string is therefore a list of code points (natural numbers); the Hebrew letters
  alef to tav are \<open>0x05D0\<close> to \<open>0x05EA\<close>.
\<close>

type_synonym ustr = "nat list"

definition py_isspace :: "nat \<Rightarrow> bool" where
  \<comment> \<open>The code points for which \<open>str.isspace\<close> holds; \<open>str.split()\<close>, \<open>str.strip()\<close> and the
      regular-expression classes \<open>\s\<close> and \<open>\S\<close> all use this set.\<close>
  "py_isspace c \<longleftrightarrow>
     (0x09 \<le> c \<and> c \<le> 0x0D) \<or> (0x1C \<le> c \<and> c \<le> 0x20) \<or> c = 0x85 \<or> c = 0xA0 \<or>
     c = 0x1680 \<or> (0x2000 \<le> c \<and> c \<le> 0x200A) \<or> c = 0x2028 \<or> c = 0x2029 \<or>
     c = 0x202F \<or> c = 0x205F \<or> c = 0x3000"

definition is_hebrew_letter :: "nat \<Rightarrow> bool" where
  \<comment> \<open>the character class \<open>[alef-tav]\<close>\<close>
  "is_hebrew_letter c \<longleftrightarrow> 0x05D0 \<le> c \<and> c \<le> 0x05EA"

definition is_nikud :: "nat \<Rightarrow> bool" where
  \<comment> \<open>the character class of the Hebrew points and accents, U+0591 to U+05C7\<close>
  "is_nikud c \<longleftrightarrow> 0x0591 \<le> c \<and> c \<le> 0x05C7"

definition is_quote_glyph :: "nat \<Rightarrow> bool" where
  \<comment> \<open>gershayim, ASCII double quote, geresh, apostrophe, backtick, prime, double prime,
      triple prime\<close>
  "is_quote_glyph c \<longleftrightarrow> c \<in> {0x05F4, 0x22, 0x05F3, 0x27, 0x60, 0x2032, 0x2033, 0x2034}"

definition is_punct :: "nat \<Rightarrow> bool" where
  \<comment> \<open>the character class \<open>[,.\-:;!?()[\]{}]\<close>\<close>
  "is_punct c \<longleftrightarrow> c \<in> {0x2C, 0x2E, 0x2D, 0x3A, 0x3B, 0x21, 0x3F, 0x28, 0x29, 0x5B, 0x5D, 0x7B, 0x7D}"

abbreviation VAV :: nat where "VAV \<equiv> 0x05D5"
abbreviation YOD :: nat where "YOD \<equiv> 0x05D9"
abbreviation HEH :: nat where "HEH \<equiv> 0x05D4"
abbreviation SPACE :: nat where "SPACE \<equiv> 0x20"

function py_split :: "ustr \<Rightarrow> ustr list" where
  \<comment> \<open>\<open>text.split()\<close>: maximal runs of non-whitespace\<close>
  "py_split s =
     (case dropWhile py_isspace s of
        [] \<Rightarrow> []
      | c # cs \<Rightarrow> takeWhile (\<lambda>x. \<not> py_isspace x) (c # cs)
                 # py_split (dropWhile (\<lambda>x. \<not> py_isspace x) (c # cs)))"
  by pat_completeness auto
termination
proof (relation "measure length")
  show "wf (measure length)" by simp
next
  fix s :: ustr and c cs
  assume d: "dropWhile py_isspace s = c # cs"
  then have "\<not> py_isspace c"
    by (metis dropWhile_eq_Cons_conv)
  then have "dropWhile (\<lambda>x. \<not> py_isspace x) (c # cs) = dropWhile (\<lambda>x. \<not> py_isspace x) cs"
    by simp
  moreover have "length (dropWhile (\<lambda>x. \<not> py_isspace x) cs) \<le> length cs"
    by (rule length_dropWhile_le)
  moreover have "length (c # cs) \<le> length s"
    using length_dropWhile_le [of py_isspace s] d by simp
  ultimately show "(dropWhile (\<lambda>x. \<not> py_isspace x) (c # cs), s) \<in> measure length"
    by simp
qed

declare py_split.simps [simp del]

fun py_join :: "ustr \<Rightarrow> ustr list \<Rightarrow> ustr" where
  \<comment> \<open>\<open>sep.join(words)\<close>\<close>
  "py_join sep [] = []"
| "py_join sep [w] = w"
| "py_join sep (w # v # ws) = w @ sep @ py_join sep (v # ws)"

definition py_strip :: "ustr \<Rightarrow> ustr" where
  \<comment> \<open>\<open>text.strip()\<close>\<close>
  "py_strip s = rev (dropWhile py_isspace (rev (dropWhile py_isspace s)))"

fun elide_between :: "nat \<Rightarrow> ustr \<Rightarrow> ustr" where
  \<comment> \<open>\<open>re.sub('([alef-tav])X([alef-tav])', '\1\2', text)\<close> for a letter \<open>X\<close>: matches are found
      left to right and do not overlap, so the scan resumes after the third character of
      each match.\<close>
  "elide_between x (a # b # c # rest) =
     (if is_hebrew_letter a \<and> b = x \<and> is_hebrew_letter c
      then a # c # elide_between x rest
      else a # elide_between x (b # c # rest))"
| "elide_between x s = s"

definition normalize_text :: "ustr \<Rightarrow> int \<Rightarrow> ustr" where
  "normalize_text text level =
     (if text = [] then []
      else let t1 = filter (\<lambda>c. \<not> is_nikud c) text;
               t2 = filter (\<lambda>c. \<not> is_quote_glyph c) t1;
               t3 = (if level \<ge> 1 then elide_between VAV t2 else t2);
               t4 = (if level \<ge> 2 then elide_between YOD t3 else t3);
               t5 = (if level \<ge> 3 then elide_between HEH t4 else t4);
               t6 = map (\<lambda>c. if is_punct c then SPACE else c) t5;
               t7 = py_join [SPACE] (py_split t6)
           in py_strip t7)"

section \<open>Arithmetic: Python floats as correctly rounded rationals\<close>

text \<open>
  The scores are computed with Python \<open>float\<close>s (IEEE 754 binary64) and cut to integers
  with \<open>int()\<close>.  A float is modelled by the rational number it denotes, and every
  arithmetic operation by the exact operation followed by \<open>rnd\<close>, rounding to the nearest
  number with a 53-bit significand, ties to the even significand.  The exponent is not
  bounded: the model is exact as long as no result overflows or becomes subnormal.
\<close>

fun bit_length :: "nat \<Rightarrow> nat" where
  "bit_length n = (if n = 0 then 0 else Suc (bit_length (n div 2)))"

declare bit_length.simps [simp del]

definition pow2 :: "int \<Rightarrow> rat" where
  "pow2 k = (if 0 \<le> k then 2 ^ nat k else 1 / 2 ^ nat (- k))"

definition ilog2 :: "rat \<Rightarrow> int" where
  \<comment> \<open>for \<open>x > 0\<close>, the exponent \<open>e\<close> with \<open>2^e \<le> x < 2^(e+1)\<close>\<close>
  "ilog2 x = (if 1 \<le> x then int (bit_length (nat \<lfloor>x\<rfloor>)) - 1
              else - int (bit_length (nat \<lceil>1 / x\<rceil> - 1)))"

definition round_half_even :: "rat \<Rightarrow> int" where
  "round_half_even q =
     (let f = \<lfloor>q\<rfloor>; d = q - of_int f
      in if d < 1 / 2 then f else if 1 / 2 < d then f + 1 else if even f then f else f + 1)"

definition rnd :: "rat \<Rightarrow> rat" where
  "rnd x = (if x = 0 then 0
            else let u = pow2 (ilog2 \<bar>x\<bar> - 52) in of_int (round_half_even (x / u)) * u)"

definition py_int :: "rat \<Rightarrow> int" where
  \<comment> \<open>\<open>int(x)\<close> of a float: truncation towards zero\<close>
  "py_int x = (if 0 \<le> x then \<lfloor>x\<rfloor> else \<lceil>x\<rceil>)"

definition fdiv :: "rat \<Rightarrow> rat \<Rightarrow> rat" where "fdiv x y = rnd (x / y)"
definition fmul :: "rat \<Rightarrow> rat \<Rightarrow> rat" where "fmul x y = rnd (x * y)"
definition fadd :: "rat \<Rightarrow> rat \<Rightarrow> rat" where "fadd x y = rnd (x + y)"

definition percent_int :: "nat \<Rightarrow> nat \<Rightarrow> int" where
  \<comment> \<open>\<open>int((a / b) * 100)\<close> for integers \<open>a\<close>, \<open>b\<close> with \<open>b\<close> not zero\<close>
  "percent_int a b = py_int (fmul (fdiv (of_nat a) (of_nat b)) 100)"

section \<open>String and regular-expression primitives\<close>

definition py_startswith :: "ustr \<Rightarrow> ustr \<Rightarrow> bool" where
  \<comment> \<open>\<open>s.startswith(pat)\<close>\<close>
  "py_startswith pat s \<longleftrightarrow> take (length pat) s = pat"

fun py_contains :: "ustr \<Rightarrow> ustr \<Rightarrow> bool" where
  \<comment> \<open>\<open>pat in s\<close>\<close>
  "py_contains pat [] = (pat = [])"
| "py_contains pat (c # cs) = (py_startswith pat (c # cs) \<or> py_contains pat cs)"

fun replace_scan :: "ustr \<Rightarrow> ustr \<Rightarrow> nat \<Rightarrow> ustr \<Rightarrow> ustr" where
  \<comment> \<open>the scan of \<open>s.replace(old, new)\<close> for a non-empty \<open>old\<close>; the counter is the number
      of characters of the current match still to be skipped\<close>
  "replace_scan old new k [] = []"
| "replace_scan old new (Suc k) (c # cs) = replace_scan old new k cs"
| "replace_scan old new 0 (c # cs) =
     (if py_startswith old (c # cs) then new @ replace_scan old new (length old - 1) cs
      else c # replace_scan old new 0 cs)"

definition py_replace :: "ustr \<Rightarrow> ustr \<Rightarrow> ustr \<Rightarrow> ustr" where
  \<comment> \<open>\<open>s.replace(old, new)\<close>; an empty \<open>old\<close> matches before every character and at the end\<close>
  "py_replace old new s =
     (if old = [] then concat (map (\<lambda>c. new @ [c]) s) @ new else replace_scan old new 0 s)"

fun py_replace_first :: "ustr \<Rightarrow> ustr \<Rightarrow> ustr \<Rightarrow> ustr" where
  \<comment> \<open>\<open>s.replace(old, new, 1)\<close>\<close>
  "py_replace_first old new [] = (if old = [] then new else [])"
| "py_replace_first old new (c # cs) =
     (if py_startswith old (c # cs) then new @ drop (length old) (c # cs)
      else c # py_replace_first old new cs)"

definition py_take :: "int \<Rightarrow> 'a list \<Rightarrow> 'a list" where
  \<comment> \<open>the slice \<open>xs[:n]\<close>; a negative \<open>n\<close> counts from the end\<close>
  "py_take n xs = (if 0 \<le> n then take (nat n) xs else take (length xs - nat (- n)) xs)"

fun re_sub_delete :: "(ustr \<Rightarrow> nat) \<Rightarrow> nat \<Rightarrow> ustr \<Rightarrow> ustr" where
  \<comment> \<open>\<open>re.sub(pattern, '', s)\<close> for a pattern without anchors or lookbehind that never matches
      the empty string: \<open>m t\<close> is the length of the match of the pattern at the start of
      \<open>t\<close>, or 0 when there is none.  Matches are taken leftmost first and do not overlap;
      the counter is the number of matched characters still to be skipped.\<close>
  "re_sub_delete m k [] = []"
| "re_sub_delete m (Suc k) (c # cs) = re_sub_delete m k cs"
| "re_sub_delete m 0 (c # cs) =
     (case m (c # cs) of 0 \<Rightarrow> c # re_sub_delete m 0 cs | Suc n \<Rightarrow> re_sub_delete m n cs)"

fun re_search :: "(ustr \<Rightarrow> nat) \<Rightarrow> ustr \<Rightarrow> ustr option" where
  \<comment> \<open>\<open>re.search(pattern, s)\<close>, giving \<open>group(0)\<close> of the leftmost match\<close>
  "re_search m [] = None"
| "re_search m (c # cs) =
     (case m (c # cs) of 0 \<Rightarrow> re_search m cs | Suc n \<Rightarrow> Some (take (Suc n) (c # cs)))"

fun last_index :: "ustr \<Rightarrow> ustr \<Rightarrow> nat option" where
  \<comment> \<open>the last position at which \<open>pat\<close> occurs in \<open>s\<close>\<close>
  "last_index pat [] = (if pat = [] then Some 0 else None)"
| "last_index pat (c # cs) =
     (case last_index pat cs of
        Some k \<Rightarrow> Some (Suc k)
      | None \<Rightarrow> if py_startswith pat (c # cs) then Some 0 else None)"

abbreviation TAV :: nat where "TAV \<equiv> 0x05EA"
abbreviation SHIN :: nat where "SHIN \<equiv> 0x05E9"
abbreviation DALET :: nat where "DALET \<equiv> 0x05D3"
abbreviation PIPE :: nat where "PIPE \<equiv> 0x7C"
abbreviation GERESH :: nat where "GERESH \<equiv> 0x05F3"
abbreviation GERSHAYIM :: nat where "GERSHAYIM \<equiv> 0x05F4"
abbreviation DQUOTE :: nat where "DQUOTE \<equiv> 0x22"
abbreviation APOSTROPHE :: nat where "APOSTROPHE \<equiv> 0x27"

definition MAAMAR :: ustr where
  \<comment> \<open>the word mem, alef, mem, resh (``discourse'')\<close>
  "MAAMAR = [0x05DE, 0x05D0, 0x05DE, 0x05E8]"

definition match_maamar :: "ustr \<Rightarrow> nat" where
  \<comment> \<open>the pattern \<open>\S*MAAMAR\s*\<close>: the greedy \<open>\S*\<close> backtracks to the last occurrence of the
      word inside the run of non-space characters\<close>
  "match_maamar s =
     (case last_index MAAMAR (takeWhile (\<lambda>c. \<not> py_isspace c) s) of
        None \<Rightarrow> 0
      | Some k \<Rightarrow> k + 4 + length (takeWhile py_isspace (drop (k + 4) s)))"

definition is_year_quote :: "nat \<Rightarrow> bool" where
  \<comment> \<open>the character class of gershayim, double quote, geresh and apostrophe\<close>
  "is_year_quote c \<longleftrightarrow> c \<in> {GERSHAYIM, DQUOTE, GERESH, APOSTROPHE}"

definition match_year_tail :: "ustr \<Rightarrow> nat" where
  \<comment> \<open>the optional group: a quote glyph and a letter, or a letter\<close>
  "match_year_tail s =
     (case s of
        [] \<Rightarrow> 0
      | q # r \<Rightarrow>
          if is_year_quote q \<and> (case r of [] \<Rightarrow> False | l # _ \<Rightarrow> is_hebrew_letter l) then 2
          else if is_hebrew_letter q then 1 else 0)"

definition match_year :: "ustr \<Rightarrow> nat" where
  \<comment> \<open>the year pattern: tav, shin, one or two letters, then the optional group\<close>
  "match_year s =
     (case s of
        a # b # c # rest \<Rightarrow>
          if a = TAV \<and> b = SHIN \<and> is_hebrew_letter c
          then (case rest of
                  [] \<Rightarrow> 3
                | d # rest' \<Rightarrow>
                    if is_hebrew_letter d then 4 + match_year_tail rest'
                    else 3 + match_year_tail rest)
          else 0
      | _ \<Rightarrow> 0)"

definition match_dh :: "ustr \<Rightarrow> nat" where
  \<comment> \<open>the pattern of an optional pipe, dalet, a quote glyph, heh, an optional pipe and
      white space\<close>
  "match_dh s =
     (let s1 = (case s of [] \<Rightarrow> [] | c # r \<Rightarrow> if c = PIPE then r else s)
      in case s1 of
           d # q # h # r \<Rightarrow>
             if d = DALET \<and> is_quote_glyph q \<and> h = HEH
             then let r1 = (case r of [] \<Rightarrow> [] | c # r' \<Rightarrow> if c = PIPE then r' else r)
                  in (length s - length s1) + 3 + (length r - length r1)
                     + length (takeWhile py_isspace r1)
             else 0
         | _ \<Rightarrow> 0)"

definition normalize_year :: "ustr \<Rightarrow> ustr" where
  \<comment> \<open>the two substitutions applied to every year: a leading heh with an optional
      apostrophe or geresh is dropped, then quote glyphs and slashes are removed\<close>
  "normalize_year y =
     (let y1 = (case y of
                  [] \<Rightarrow> []
                | h # r \<Rightarrow>
                    if h = HEH
                    then (case r of
                            [] \<Rightarrow> []
                          | q # r' \<Rightarrow> if q = APOSTROPHE \<or> q = GERESH then r' else r)
                    else y)
      in filter (\<lambda>c. c \<notin> {GERSHAYIM, DQUOTE, APOSTROPHE, GERESH, 0x2F}) y1)"


section \<open>The corpus, the candidates and the environment\<close>

text \<open>
  A corpus record is a Python dictionary read with \<open>get\<close>; a missing field and an empty one
  are treated alike by the code, so a record holds the (possibly empty) fields.  The corpus
  itself is a dictionary iterated in insertion order: an association list.
\<close>

record maamar =
  m_name :: ustr
  m_year :: ustr
  m_filename :: ustr
  m_text :: ustr
  m_keywords_all :: "ustr list"
  m_embedding :: "rat list option"

record candidate =
  c_key :: ustr
  c_name :: ustr
  c_year :: "ustr option"
  c_filename :: ustr
  c_text :: ustr
  c_keywords_all :: "ustr list"
  c_keywords_all_normalized :: "ustr list"
  c_embedding :: "rat list option"
  c_score :: int
  c_fuzzy_score :: int
  c_keyword_score :: int
  c_semantic_score :: int
  c_words_found :: nat
  c_total_words :: nat
  c_matched_keywords :: "ustr list option"
  c_matched_keyword_counts :: "(ustr \<times> nat) list option"
  c_title_keywords :: "(nat \<times> nat \<times> (ustr \<times> nat) list \<times> bool) option"

datatype http_response =
    Transport_error
  | Http_status nat "ustr option"

text \<open>
  Everything outside the module is a parameter: the loaded corpus with its abbreviation and
  alias tables, the configuration flags, the chat-completion service (the response to the
  \<open>n\<close>-th request for a question; a body without the expected fields is \<open>None\<close>), the
  embedding service, the string-similarity library and the two character tables of the
  Unicode database that the regular expressions \<open>\d\<close> and \<open>\b\<close> consult.
\<close>

record env =
  maamarim :: "(ustr \<times> maamar) list"
  abbreviations :: "(ustr \<times> ustr) list"
  keyword_aliases :: "(ustr \<times> ustr list) list"
  has_requests :: bool
  kimi_api_key :: ustr
  kimi_service :: "nat \<Rightarrow> ustr \<Rightarrow> http_response"
  enable_semantic_search :: bool
  has_openai :: bool
  has_numpy :: bool
  embed_service :: "ustr \<Rightarrow> rat list option"
  fuzz_ratio :: "ustr \<Rightarrow> ustr \<Rightarrow> rat option"
  unicode_decimal :: "nat \<Rightarrow> bool"
  unicode_word :: "nat \<Rightarrow> bool"

section \<open>Cleaning the query\<close>

definition clean_maamar_name :: "env \<Rightarrow> ustr \<Rightarrow> ustr" where
  "clean_maamar_name e text =
     (if text = [] then text
      else let t1 = re_sub_delete match_maamar 0 (py_strip text);
               t2 = filter (\<lambda>c. \<not> unicode_decimal e c) t1
           in py_join [SPACE] (py_split t2))"

definition extract_year_from_text :: "ustr \<Rightarrow> ustr \<times> ustr option" where
  "extract_year_from_text text =
     (if text = [] then (text, None)
      else case re_search match_year text of
             Some year_original \<Rightarrow>
               (py_join [SPACE] (py_split (py_replace_first year_original [] text)),
                Some year_original)
           | None \<Rightarrow> (text, None))"

fun name_words_until_quote :: "ustr list \<Rightarrow> ustr list" where
  \<comment> \<open>the loop of \<open>extract_maamar_name_only\<close>: a word with gershayim or geresh is skipped
      when it is a year (it starts with tav, shin) and ends the title otherwise\<close>
  "name_words_until_quote [] = []"
| "name_words_until_quote (w # ws) =
     (if GERSHAYIM \<in> set w \<or> GERESH \<in> set w
      then (if py_startswith [TAV, SHIN] w then name_words_until_quote ws else [])
      else w # name_words_until_quote ws)"

definition extract_maamar_name_only :: "ustr \<Rightarrow> ustr" where
  "extract_maamar_name_only text =
     (if text = [] then text
      else let t = py_strip (re_sub_delete match_dh 0 text)
           in py_strip (py_join [SPACE] (name_words_until_quote (py_split t))))"

definition quote_chars :: "nat list" where
  "quote_chars = [DQUOTE, APOSTROPHE, GERSHAYIM, GERESH, 0x60, 0x2032, 0x2033, 0x2034]"

definition replace_char :: "nat \<Rightarrow> nat \<Rightarrow> ustr \<Rightarrow> ustr" where
  \<comment> \<open>\<open>s.replace(a, q)\<close> for single characters\<close>
  "replace_char a q s = map (\<lambda>c. if c = a then q else c) s"

fun try_quote_variants :: "ustr \<Rightarrow> ustr \<Rightarrow> nat list \<Rightarrow> ustr \<Rightarrow> ustr" where
  "try_quote_variants abbr meaning [] result = result"
| "try_quote_variants abbr meaning (q # qs) result =
     (let abbr_variant =
            replace_char GERESH q (replace_char GERSHAYIM q
              (replace_char APOSTROPHE q (replace_char DQUOTE q abbr)))
      in if py_contains abbr_variant result then py_replace abbr_variant meaning result
         else try_quote_variants abbr meaning qs result)"

definition expand_one :: "ustr \<Rightarrow> ustr \<times> ustr \<Rightarrow> ustr" where
  \<comment> \<open>the body of the loop over the abbreviation table\<close>
  "expand_one result am =
     (case am of (abbr_original, meaning) \<Rightarrow>
        if abbr_original = [] \<or> meaning = [] then result
        else if py_contains abbr_original result then py_replace abbr_original meaning result
        else if DQUOTE \<in> set abbr_original \<or> APOSTROPHE \<in> set abbr_original
                \<or> GERSHAYIM \<in> set abbr_original \<or> GERESH \<in> set abbr_original
        then try_quote_variants abbr_original meaning quote_chars result
        else result)"

definition expand_abbreviations :: "env \<Rightarrow> ustr \<Rightarrow> ustr" where
  "expand_abbreviations e text =
     (if text = [] \<or> abbreviations e = [] then text
      else foldl expand_one text (abbreviations e))"

section \<open>Title matching: mareh-makom word-set mode\<close>

definition mara_makom_candidate :: "env \<Rightarrow> ustr list \<Rightarrow> ustr \<times> maamar \<Rightarrow> candidate list" where
  \<comment> \<open>the body of the loop over the corpus: no candidate for a record without a name or
      without a query word in its name\<close>
  "mara_makom_candidate e query_words km =
     (case km of (k, m) \<Rightarrow>
        if m_name m = [] then []
        else let name_words = set (py_split (normalize_text (expand_abbreviations e (m_name m)) 3));
                 words_found = length (filter (\<lambda>w. w \<in> name_words) query_words);
                 total_words = length query_words;
                 score = (if total_words \<noteq> 0 then percent_int words_found total_words else 0);
                 year_value = (if m_year m \<noteq> [] then Some (m_year m)
                               else re_search match_year (m_name m))
             in if words_found \<le> 0 then []
                else [\<lparr> c_key = k, c_name = m_name m, c_year = year_value,
                        c_filename = m_filename m, c_text = m_text m,
                        c_keywords_all = m_keywords_all m, c_keywords_all_normalized = [],
                        c_embedding = m_embedding m, c_score = score, c_fuzzy_score = score,
                        c_keyword_score = 0, c_semantic_score = 0,
                        c_words_found = words_found, c_total_words = total_words,
                        c_matched_keywords = None, c_matched_keyword_counts = None,
                        c_title_keywords = None \<rparr>])"

definition mara_makom_query_words :: "env \<Rightarrow> ustr \<Rightarrow> ustr list" where
  "mara_makom_query_words e maamar_name =
     (let name1 = py_strip (re_sub_delete match_dh 0 maamar_name);
          query_norm = normalize_text (expand_abbreviations e name1) 3
      in filter (\<lambda>w. w \<noteq> []) (py_split query_norm))"

definition mara_makom_sort_key :: "candidate \<Rightarrow> int \<times> int \<times> int" where
  \<comment> \<open>the source sorts by \<open>(words_found, score, -len(name))\<close> with \<open>reverse=True\<close>, a stable
      descending sort: the ascending stable sort by the negated key\<close>
  "mara_makom_sort_key r = (- int (c_words_found r), - c_score r, int (length (c_name r)))"

definition mara_makom_all :: "env \<Rightarrow> ustr \<Rightarrow> candidate list" where
  \<comment> \<open>the sorted results before the cut to \<open>top_n\<close>\<close>
  "mara_makom_all e maamar_name =
     (if maamar_name = [] then []
      else let query_words = mara_makom_query_words e maamar_name
           in if query_words = [] then []
              else sort_key mara_makom_sort_key
                     (concat (map (mara_makom_candidate e query_words) (maamarim e))))"

definition mara_makom_word_match_search :: "env \<Rightarrow> ustr \<Rightarrow> int \<Rightarrow> candidate list" where
  "mara_makom_word_match_search e maamar_name top_n = py_take top_n (mara_makom_all e maamar_name)"


section \<open>Keyword extraction adapter\<close>

datatype py_error = RuntimeError | NameError | IndexError

record kw_state =
  kw_cache :: "ustr \<rightharpoonup> ustr list"
  kw_calls :: nat

fun split_sep :: "ustr \<Rightarrow> nat \<Rightarrow> ustr \<Rightarrow> ustr list" where
  \<comment> \<open>\<open>s.split(sep)\<close> for a non-empty separator; the counter is the number of separator
      characters still to be skipped\<close>
  "split_sep sep k [] = [[]]"
| "split_sep sep (Suc k) (c # cs) = split_sep sep k cs"
| "split_sep sep 0 (c # cs) =
     (if py_startswith sep (c # cs) then [] # split_sep sep (length sep - 1) cs
      else (case split_sep sep 0 cs of [] \<Rightarrow> [[c]] | p # ps \<Rightarrow> (c # p) # ps))"

definition EIN :: ustr where
  \<comment> \<open>the word alef, yod, final nun (``none'')\<close>
  "EIN = [0x05D0, 0x05D9, 0x05DF]"

definition number_phrases :: "ustr list" where
  "number_phrases = [
     [0x05D0, 0x05D7, 0x05D3, 0x0020, 0x05E2, 0x05E9, 0x05E8, 0x05D4],
     [0x05D0, 0x05D7, 0x05D3, 0x0020, 0x05E2, 0x05E9, 0x05E8],
     [0x05E9, 0x05EA, 0x05D9, 0x05D9, 0x05DD, 0x0020, 0x05E2, 0x05E9, 0x05E8, 0x05D4],
     [0x05E9, 0x05EA, 0x05D9, 0x05D9, 0x05DD, 0x0020, 0x05E2, 0x05E9, 0x05E8],
     [0x05E9, 0x05DC, 0x05D5, 0x05E9, 0x0020, 0x05E2, 0x05E9, 0x05E8, 0x05D4],
     [0x05E9, 0x05DC, 0x05D5, 0x05E9, 0x0020, 0x05E2, 0x05E9, 0x05E8],
     [0x05D0, 0x05E8, 0x05D1, 0x05E2, 0x0020, 0x05E2, 0x05E9, 0x05E8, 0x05D4],
     [0x05D0, 0x05E8, 0x05D1, 0x05E2, 0x0020, 0x05E2, 0x05E9, 0x05E8],
     [0x05D7, 0x05DE, 0x05E9, 0x0020, 0x05E2, 0x05E9, 0x05E8, 0x05D4],
     [0x05D7, 0x05DE, 0x05E9, 0x0020, 0x05E2, 0x05E9, 0x05E8],
     [0x05E9, 0x05E9, 0x0020, 0x05E2, 0x05E9, 0x05E8, 0x05D4],
     [0x05E9, 0x05E9, 0x0020, 0x05E2, 0x05E9, 0x05E8],
     [0x05E9, 0x05D1, 0x05E2, 0x0020, 0x05E2, 0x05E9, 0x05E8, 0x05D4],
     [0x05E9, 0x05D1, 0x05E2, 0x0020, 0x05E2, 0x05E9, 0x05E8],
     [0x05E9, 0x05DE, 0x05D5, 0x05E0, 0x05D4, 0x0020, 0x05E2, 0x05E9, 0x05E8, 0x05D4],
     [0x05E9, 0x05DE, 0x05D5, 0x05E0, 0x05D4, 0x0020, 0x05E2, 0x05E9, 0x05E8],
     [0x05EA, 0x05E9, 0x05E2, 0x0020, 0x05E2, 0x05E9, 0x05E8, 0x05D4],
     [0x05EA, 0x05E9, 0x05E2, 0x0020, 0x05E2, 0x05E9, 0x05E8],
     [0x05E9, 0x05DC, 0x05D5, 0x05E9, 0x0020, 0x05DE, 0x05D0, 0x05D5, 0x05EA],
     [0x05D0, 0x05E8, 0x05D1, 0x05E2, 0x0020, 0x05DE, 0x05D0, 0x05D5, 0x05EA],
     [0x05D7, 0x05DE, 0x05E9, 0x0020, 0x05DE, 0x05D0, 0x05D5, 0x05EA],
     [0x05E9, 0x05E9, 0x0020, 0x05DE, 0x05D0, 0x05D5, 0x05EA],
     [0x05E9, 0x05D1, 0x05E2, 0x0020, 0x05DE, 0x05D0, 0x05D5, 0x05EA],
     [0x05E9, 0x05DE, 0x05D5, 0x05E0, 0x05D4, 0x0020, 0x05DE, 0x05D0, 0x05D5, 0x05EA],
     [0x05EA, 0x05E9, 0x05E2, 0x0020, 0x05DE, 0x05D0, 0x05D5, 0x05EA]]"

definition number_words :: "ustr list" where
  "number_words = [
     [0x05D0, 0x05D7, 0x05D3], [0x05E9, 0x05EA, 0x05D9, 0x05D9, 0x05DD],
     [0x05E9, 0x05DC, 0x05D5, 0x05E9], [0x05D0, 0x05E8, 0x05D1, 0x05E2],
     [0x05D7, 0x05DE, 0x05E9], [0x05E9, 0x05E9], [0x05E9, 0x05D1, 0x05E2],
     [0x05E9, 0x05DE, 0x05D5, 0x05E0, 0x05D4], [0x05EA, 0x05E9, 0x05E2],
     [0x05E2, 0x05E9, 0x05E8], [0x05E2, 0x05E9, 0x05E8, 0x05D4],
     [0x05E2, 0x05E9, 0x05E8, 0x05D9, 0x05DD],
     [0x05E9, 0x05DC, 0x05D5, 0x05E9, 0x05D9, 0x05DD],
     [0x05D0, 0x05E8, 0x05D1, 0x05E2, 0x05D9, 0x05DD],
     [0x05D7, 0x05DE, 0x05D9, 0x05E9, 0x05D9, 0x05DD],
     [0x05E9, 0x05D9, 0x05E9, 0x05D9, 0x05DD], [0x05E9, 0x05D1, 0x05E2, 0x05D9, 0x05DD],
     [0x05E9, 0x05DE, 0x05D5, 0x05E0, 0x05D9, 0x05DD],
     [0x05EA, 0x05E9, 0x05E2, 0x05D9, 0x05DD], [0x05DE, 0x05D0, 0x05D4],
     [0x05DE, 0x05D0, 0x05EA, 0x05D9, 0x05D9, 0x05DD], [0x05D9, 0x05D0], [0x05D9, 0x05D1],
     [0x05D9, 0x05D2], [0x05D9, 0x05D3], [0x05D8, 0x05D5], [0x05D8, 0x05D6], [0x05D9, 0x05D6],
     [0x05D9, 0x05D7], [0x05D9, 0x05D8], [0x05DB], [0x05DC]]"

definition stop_words :: "ustr list" where
  "stop_words = [
     [0x05DE, 0x05D4], [0x05DE, 0x05D9], [0x05D0, 0x05D9, 0x05DA], [0x05DC, 0x05DE, 0x05D4],
     [0x05D4, 0x05D0, 0x05DD], [0x05D0, 0x05D9, 0x05E4, 0x05D4], [0x05DE, 0x05EA, 0x05D9],
     [0x05DB, 0x05DE, 0x05D4], [0x05E9, 0x05DC], [0x05E2, 0x05DC], [0x05D0, 0x05EA],
     [0x05E2, 0x05DD], [0x05DC, 0x05E4, 0x05D9], [0x05D0, 0x05DC], [0x05DE, 0x05DF], [0x05D1],
     [0x05DC], [0x05DB], [0x05DE], [0x05D4, 0x05E8, 0x05D1], [0x05E8, 0x05D1],
     [0x05D3, 0x05E2, 0x05EA], [0x05D0, 0x05D5, 0x05DE, 0x05E8],
     [0x05DE, 0x05E1, 0x05D1, 0x05D9, 0x05E8], [0x05DE, 0x05D3, 0x05D1, 0x05E8],
     [0x05D0, 0x05D5, 0x05DE, 0x05E8, 0x05D9, 0x05DD], [0x05D6, 0x05D4], [0x05D6, 0x05D5],
     [0x05D6, 0x05D0, 0x05EA], [0x05D0, 0x05DC, 0x05D4], [0x05D0, 0x05DC, 0x05D5],
     [0x05DB, 0x05DC], [0x05DB, 0x05D5, 0x05DC, 0x05DD], [0x05DB, 0x05D5, 0x05DC, 0x05DF],
     [0x05D4, 0x05DB, 0x05DC], [0x05D9, 0x05E9], [0x05D0, 0x05D9, 0x05DF],
     [0x05D9, 0x05D4, 0x05D9, 0x05D4], [0x05D4, 0x05D9, 0x05D4], [0x05D0, 0x05D5],
     [0x05D5, 0x05D2, 0x05DD], [0x05D0, 0x05D1, 0x05DC], [0x05E8, 0x05E7], [0x05D2, 0x05DD],
     [0x05D0, 0x05E3], [0x05DB, 0x05D9], [0x05D0, 0x05DD], [0x05E9]]"

definition remove_phrase :: "ustr \<Rightarrow> ustr \<Rightarrow> ustr" where
  \<comment> \<open>one round of the loop over the number phrases\<close>
  "remove_phrase result phrase =
     (if py_contains phrase result
      then py_replace ([SPACE] @ phrase) []
             (py_replace (phrase @ [SPACE]) []
                (py_replace ([SPACE] @ phrase @ [SPACE]) [SPACE] result))
      else result)"

definition remove_numbers_from_keyword :: "ustr \<Rightarrow> ustr" where
  "remove_numbers_from_keyword keyword =
     (if keyword = [] then keyword
      else let result = foldl remove_phrase keyword
                          (sort_key (\<lambda>p. - int (length p)) number_phrases);
               filtered_words = filter (\<lambda>w. w \<notin> set number_words) (py_split result);
               result_final = py_strip (py_join [SPACE] filtered_words)
           in if result_final = [] \<or> result_final = keyword then keyword else result_final)"

definition expand_vav :: "ustr \<Rightarrow> ustr list" where
  \<comment> \<open>the body of the loop that splits keywords joined by the conjunction vav\<close>
  "expand_vav kw =
     (if py_contains [SPACE, VAV] kw
      then filter (\<lambda>p. p \<noteq> []) (map py_strip (split_sep [SPACE, VAV] 0 kw))
      else if py_startswith [VAV] kw \<and> length kw > 1 then [py_strip (tl kw)]
      else [kw])"

definition clean_number :: "ustr \<Rightarrow> ustr" where
  "clean_number kw =
     (let kw_cleaned = remove_numbers_from_keyword kw
      in if kw_cleaned \<noteq> [] \<and> py_strip kw_cleaned \<noteq> [] \<and> kw_cleaned \<noteq> kw then kw_cleaned
         else kw)"

definition long_enough :: "ustr \<Rightarrow> bool" where
  \<comment> \<open>the final filter: at least three characters without the quote glyphs, or a quote
      glyph in the keyword\<close>
  "long_enough kw \<longleftrightarrow>
     length (py_strip (filter (\<lambda>c. \<not> is_quote_glyph c) kw)) \<ge> 3 \<or> (\<exists>c \<in> set kw. is_quote_glyph c)"

definition parse_keywords :: "ustr \<Rightarrow> ustr list" where
  \<comment> \<open>the keyword list computed from an answer that is not the word ``none''\<close>
  "parse_keywords answer =
     (let by_comma = filter (\<lambda>kw. kw \<noteq> []) (map py_strip (split_sep [0x2C] 0 answer));
          keywords = (if by_comma = []
                      then filter (\<lambda>kw. kw \<noteq> [] \<and> kw \<noteq> EIN)
                             (map py_strip (split_sep [0x0A] 0 answer))
                      else by_comma);
          expanded = concat (map expand_vav keywords);
          cleaned = map clean_number expanded
      in filter long_enough (sort cleaned))"

definition extract_keywords_from_question ::
  "env \<Rightarrow> kw_state \<Rightarrow> ustr \<Rightarrow> ustr list option \<times> kw_state" where
  \<comment> \<open>\<open>None\<close> is the failure signal.  Lower-casing changes no Hebrew letter and produces
      none, so the test \<open>answer.lower() == EIN\<close> is an equality with \<open>EIN\<close>.\<close>
  "extract_keywords_from_question e st question =
     (let q_key = py_strip question
      in if q_key \<noteq> [] \<and> kw_cache st q_key \<noteq> None then (kw_cache st q_key, st)
         else if \<not> has_requests e then (None, st)
         else if kimi_api_key e = [] then (None, st)
         else let st1 = st\<lparr>kw_calls := Suc (kw_calls st)\<rparr>
              in case kimi_service e (kw_calls st) question of
                   Transport_error \<Rightarrow> (None, st1)
                 | Http_status code body \<Rightarrow>
                     if code = 200
                     then (case body of
                             None \<Rightarrow> (None, st1)
                           | Some content \<Rightarrow>
                               let answer = py_strip content
                               in if answer = EIN
                                  then (Some [], st1\<lparr>kw_cache := (kw_cache st1)(q_key \<mapsto> [])\<rparr>)
                                  else let keywords = parse_keywords answer
                                       in (Some keywords,
                                           if q_key \<noteq> []
                                           then st1\<lparr>kw_cache := (kw_cache st1)(q_key \<mapsto> keywords)\<rparr>
                                           else st1))
                     else (None, st1))"


section \<open>Keyword and phrase reranking\<close>

fun dict_set :: "'k \<Rightarrow> 'v \<Rightarrow> ('k \<times> 'v) list \<Rightarrow> ('k \<times> 'v) list" where
  \<comment> \<open>\<open>d[k] = v\<close> on an insertion-ordered dictionary\<close>
  "dict_set k v [] = [(k, v)]"
| "dict_set k v ((k', v') # d) = (if k' = k then (k, v) # d else (k', v') # dict_set k v d)"

definition dict_get0 :: "('k \<times> nat) list \<Rightarrow> 'k \<Rightarrow> nat" where
  \<comment> \<open>\<open>d.get(k, 0)\<close>\<close>
  "dict_get0 d k = (case map_of d k of None \<Rightarrow> 0 | Some n \<Rightarrow> n)"

fun dedup_first :: "'a list \<Rightarrow> 'a list \<Rightarrow> 'a list" where
  \<comment> \<open>the order-preserving removal of duplicates with a \<open>seen\<close> set\<close>
  "dedup_first seen [] = []"
| "dedup_first seen (x # xs) =
     (if x \<in> set seen then dedup_first seen xs else x # dedup_first (x # seen) xs)"

fun count_scan :: "ustr \<Rightarrow> nat \<Rightarrow> ustr \<Rightarrow> nat" where
  \<comment> \<open>the number of matches that \<open>finditer\<close> finds for an escaped, non-empty literal\<close>
  "count_scan pat k [] = 0"
| "count_scan pat (Suc k) (c # cs) = count_scan pat k cs"
| "count_scan pat 0 (c # cs) =
     (if py_startswith pat (c # cs) then Suc (count_scan pat (length pat - 1) cs)
      else count_scan pat 0 cs)"

definition alias_mentions :: "ustr \<Rightarrow> ustr \<Rightarrow> nat" where
  "alias_mentions norm_text a =
     (let a_norm = normalize_text a 3 in if a_norm = [] then 0 else count_scan a_norm 0 norm_text)"

definition count_one_phrase :: "env \<Rightarrow> ustr \<Rightarrow> (ustr \<times> nat) list \<Rightarrow> ustr \<Rightarrow> (ustr \<times> nat) list" where
  "count_one_phrase e norm_text counts ph =
     (if ph = [] then counts
      else let ph0 = py_strip ph;
               aliases0 = (case map_of (keyword_aliases e) ph0 of None \<Rightarrow> [] | Some a \<Rightarrow> a);
               aliases = (if aliases0 = [] then [ph0] else aliases0)
           in dict_set ph0 (sum_list (map (alias_mentions norm_text) aliases)) counts)"

definition count_phrase_mentions_in_text :: "env \<Rightarrow> ustr \<Rightarrow> ustr list \<Rightarrow> (ustr \<times> nat) list" where
  "count_phrase_mentions_in_text e text phrases =
     (if text = [] \<or> phrases = [] then []
      else foldl (count_one_phrase e (normalize_text text 3)) [] phrases)"

fun dedup_by_norm :: "ustr list \<Rightarrow> ustr list \<Rightarrow> ustr list" where
  \<comment> \<open>the de-duplication of the extracted keywords by their level-3 form\<close>
  "dedup_by_norm seen_norm [] = []"
| "dedup_by_norm seen_norm (kw0 # kws) =
     (let kw = py_strip kw0
      in if kw = [] then dedup_by_norm seen_norm kws
         else let norm = py_strip (normalize_text kw 3)
              in if norm = [] then dedup_by_norm seen_norm kws
                 else if norm \<in> set seen_norm then dedup_by_norm seen_norm kws
                 else kw # dedup_by_norm (norm # seen_norm) kws)"

definition question_words :: "ustr \<Rightarrow> ustr list" where
  \<comment> \<open>the fallback word list: the level-3 words of the question without the stop words and
      the single letters\<close>
  "question_words question =
     filter (\<lambda>w. w \<notin> set stop_words \<and> length w > 1) (py_split (normalize_text question 3))"

definition normalized_keywords :: "candidate \<Rightarrow> ustr list" where
  "normalized_keywords c =
     (if c_keywords_all_normalized c \<noteq> []
         \<and> length (c_keywords_all_normalized c) = length (c_keywords_all c)
      then c_keywords_all_normalized c
      else map (\<lambda>kw. normalize_text kw 3) (c_keywords_all c))"

definition cand_norm_kws :: "candidate \<Rightarrow> ustr list" where
  "cand_norm_kws c =
     (if c_keywords_all_normalized c \<noteq> []
         \<and> length (c_keywords_all_normalized c) = length (c_keywords_all c)
      then c_keywords_all_normalized c
      else map (\<lambda>kw. normalize_text kw 3) (filter (\<lambda>kw. kw \<noteq> []) (c_keywords_all c)))"

definition dict_add_new :: "'k \<Rightarrow> 'v \<Rightarrow> ('k \<times> 'v) list \<Rightarrow> ('k \<times> 'v) list" where
  \<comment> \<open>\<open>if k not in d: d[k] = v\<close>\<close>
  "dict_add_new k v d = (if map_of d k = None then d @ [(k, v)] else d)"

fun normalized_to_original :: "candidate \<Rightarrow> nat \<Rightarrow> (ustr \<times> ustr) list \<Rightarrow> ustr list
    \<Rightarrow> (ustr \<times> ustr) list" where
  "normalized_to_original c i d [] = d"
| "normalized_to_original c i d (kw # kws) =
     (let normalized = (if c_keywords_all_normalized c \<noteq> []
                           \<and> i < length (c_keywords_all_normalized c)
                        then c_keywords_all_normalized c ! i else normalize_text kw 3);
          d1 = (if normalized \<noteq> [] then dict_add_new normalized kw d else d);
          d2 = foldl (\<lambda>d t. if t \<noteq> [] then dict_add_new t kw d else d) d1 (py_split normalized)
      in normalized_to_original c (Suc i) d2 kws)"

fun norm_match :: "ustr \<Rightarrow> ustr list \<Rightarrow> nat \<Rightarrow> ustr list \<Rightarrow> py_error + ustr option" where
  \<comment> \<open>the loop that compares the level-3 form of a question keyword with the level-3 forms
      of the record's keywords; the index into \<open>cand_norm_kws\<close> is checked as Python does\<close>
  "norm_match qn cn i [] = Inr None"
| "norm_match qn cn i (table_kw # ts) =
     (if table_kw = [] then norm_match qn cn (Suc i) ts
      else if i \<ge> length cn then Inl IndexError
      else if qn = cn ! i then Inr (Some table_kw)
      else norm_match qn cn (Suc i) ts)"

fun fuzzy_best :: "env \<Rightarrow> ustr \<Rightarrow> ustr list \<Rightarrow> nat \<Rightarrow> rat \<times> ustr option \<Rightarrow> ustr list
    \<Rightarrow> rat \<times> ustr option" where
  \<comment> \<open>the loop over \<open>cand_norm_kws\<close> that keeps the best similarity ratio\<close>
  "fuzzy_best e qn keywords i acc [] = acc"
| "fuzzy_best e qn keywords i acc (cn # cns) =
     (if cn = [] then fuzzy_best e qn keywords (Suc i) acc cns
      else let s = (case fuzz_ratio e qn cn of None \<Rightarrow> 0 | Some v \<Rightarrow> v)
           in if s > fst acc
              then let acc' = (s, if i < length keywords then Some (keywords ! i) else None)
                   in if s \<ge> 100 then acc' else fuzzy_best e qn keywords (Suc i) acc' cns
              else fuzzy_best e qn keywords (Suc i) acc cns)"

fun match_keywords :: "env \<Rightarrow> candidate \<Rightarrow> ustr list \<times> (ustr \<times> ustr) list \<Rightarrow> ustr list
    \<Rightarrow> py_error + ustr list \<times> (ustr \<times> ustr) list" where
  \<comment> \<open>the loop over the extracted keywords: the found phrases and the map from a question
      keyword to the record keyword it resolved to\<close>
  "match_keywords e c acc [] = Inr acc"
| "match_keywords e c acc (kw # kws) =
     (let qn = py_strip (normalize_text kw 3)
      in if qn = [] then match_keywords e c acc kws
         else case (if kw \<in> set (c_keywords_all c) then Inr (Some kw)
                     else norm_match qn (cand_norm_kws c) 0 (c_keywords_all c)) of
                Inl err \<Rightarrow> Inl err
              | Inr (Some exact_match) \<Rightarrow>
                  match_keywords e c (fst acc @ [kw], dict_set kw exact_match (snd acc)) kws
              | Inr None \<Rightarrow>
                  (case fuzzy_best e qn (c_keywords_all c) 0 (0, None) (cand_norm_kws c) of
                     (best, Some best_table_kw) \<Rightarrow>
                       if best \<ge> 85 \<and> best_table_kw \<noteq> []
                       then match_keywords e c
                              (fst acc @ [kw], dict_set kw best_table_kw (snd acc)) kws
                       else match_keywords e c acc kws
                   | (best, None) \<Rightarrow> match_keywords e c acc kws))"

definition keyword_bonus :: "int \<Rightarrow> int" where
  \<comment> \<open>\<open>int((keyword_score / 100) * 20)\<close>\<close>
  "keyword_bonus keyword_score = py_int (fmul (fdiv (of_int keyword_score) 100) 20)"

definition update_score :: "candidate \<Rightarrow> int \<Rightarrow> int" where
  \<comment> \<open>the new score of a candidate with at least one matched keyword\<close>
  "update_score c keyword_score =
     (if c_fuzzy_score c = 0 \<and> c_score c = 50 then keyword_score
      else min 100 (c_score c + keyword_bonus keyword_score))"

definition rerank_ai :: "env \<Rightarrow> ustr list \<Rightarrow> candidate \<Rightarrow> py_error + candidate \<times> nat \<times> nat" where
  \<comment> \<open>the loop body of \<open>keyword_search\<close> when a de-duplicated list of extracted keywords
      exists; the two numbers are the helper fields \<open>_min_kw_count\<close> and \<open>_sum_kw_count\<close>\<close>
  "rerank_ai e dedup c =
     (case (if c_keywords_all c \<noteq> [] then match_keywords e c ([], []) dedup else Inr ([], [])) of
        Inl err \<Rightarrow> Inl err
      | Inr (found_phrases, question_to_table_keyword) \<Rightarrow>
          let tot = (if length dedup = 0 then 1 else length dedup);
              matching0 = remdups found_phrases;
              score0 = (if matching0 \<noteq> [] then percent_int (length matching0) tot else 0);
              phrases_to_search =
                map (\<lambda>kw. case map_of question_to_table_keyword kw of None \<Rightarrow> kw | Some t \<Rightarrow> t)
                  dedup;
              counts_all_raw = count_phrase_mentions_in_text e (c_text c) phrases_to_search;
              counts_all = (if c_text c = [] then []
                            else foldl (\<lambda>d (kw, ph). dict_set kw (dict_get0 counts_all_raw ph) d) []
                                   (zip dedup phrases_to_search));
              found_in_text = filter (\<lambda>kw. dict_get0 counts_all kw > 0) dedup;
              matching_words = (if c_text c \<noteq> [] \<and> found_in_text \<noteq> []
                                then remdups (matching0 @ found_in_text) else matching0);
              keyword_score =
                (if c_text c = [] then score0
                 else if matching_words \<noteq> [] then percent_int (length matching_words) tot
                 else 0);
              all_counts = map (dict_get0 counts_all) dedup
          in if matching_words = [] then Inr (c, 0, 0)
             else Inr (c\<lparr> c_keyword_score := keyword_score,
                         c_matched_keywords := Some (filter (\<lambda>kw. kw \<in> set matching_words) dedup),
                         c_matched_keyword_counts :=
                           Some (map (\<lambda>kw. (kw, dict_get0 counts_all kw)) dedup),
                         c_score := update_score c keyword_score \<rparr>,
                       (if all_counts = [] then 0 else Min (set all_counts)),
                       sum_list all_counts))"

definition rerank_fallback :: "env \<Rightarrow> ustr list option \<Rightarrow> candidate \<Rightarrow> py_error + candidate" where
  \<comment> \<open>the loop body without extracted keywords; \<open>None\<close> for the word list is the case in
      which the source never assigned \<open>question_words_set\<close>\<close>
  "rerank_fallback e qwl c =
     (if c_keywords_all c = [] then Inr c
      else case qwl of
             None \<Rightarrow> Inl NameError
           | Some question_words_list \<Rightarrow>
               let keywords_set = set (py_split (py_join [SPACE] (normalized_keywords c)));
                   n2o = normalized_to_original c 0 [] (c_keywords_all c);
                   matching_words = remdups (filter (\<lambda>w. w \<in> keywords_set) question_words_list);
                   matching_original =
                     map (\<lambda>w. case map_of n2o w of None \<Rightarrow> w | Some kw \<Rightarrow> kw) matching_words;
                   matched_list = sort (remdups matching_original);
                   keyword_score = percent_int (length matching_words) (length question_words_list)
               in if matching_words = [] then Inr c
                  else Inr (c\<lparr> c_keyword_score := keyword_score,
                              c_matched_keywords := Some matched_list,
                              c_matched_keyword_counts :=
                                Some (count_phrase_mentions_in_text e (c_text c) matched_list),
                              c_score := update_score c keyword_score \<rparr>))"

fun map_err :: "('a \<Rightarrow> py_error + 'b) \<Rightarrow> 'a list \<Rightarrow> py_error + 'b list" where
  \<comment> \<open>a loop that stops at the first exception\<close>
  "map_err f [] = Inr []"
| "map_err f (x # xs) =
     (case f x of
        Inl err \<Rightarrow> Inl err
      | Inr y \<Rightarrow> (case map_err f xs of Inl err \<Rightarrow> Inl err | Inr ys \<Rightarrow> Inr (y # ys)))"

definition keyword_search ::
  "env \<Rightarrow> kw_state \<Rightarrow> ustr \<Rightarrow> candidate list \<Rightarrow> bool \<Rightarrow> ustr list option
    \<Rightarrow> (py_error + candidate list \<times> ustr list option) \<times> kw_state" where
  "keyword_search e st question candidates require_ai_keywords forced_keywords =
     (if question = [] \<or> candidates = [] then (Inr (candidates, None), st)
      else let (ai_keywords, st1) =
                 (case forced_keywords of
                    Some (k # ks) \<Rightarrow> (Some (k # ks), st)
                  | _ \<Rightarrow> extract_keywords_from_question e st question)
           in case ai_keywords of
                Some (k # ks) \<Rightarrow>
                  (case dedup_by_norm [] (k # ks) of
                     [] \<Rightarrow>
                       (case map_err (rerank_fallback e None) candidates of
                          Inl err \<Rightarrow> (Inl err, st1)
                        | Inr cs \<Rightarrow> (Inr (sort_key (\<lambda>c. - c_score c) cs, Some (k # ks)), st1))
                   | d # ds \<Rightarrow>
                       (case map_err (rerank_ai e (d # ds)) candidates of
                          Inl err \<Rightarrow> (Inl err, st1)
                        | Inr cs \<Rightarrow>
                            (Inr (map fst
                                    (sort_key (\<lambda>(c, mn, sm). (- c_score c, - int mn, - int sm)) cs),
                                  Some (k # ks)), st1)))
              | _ \<Rightarrow>
                  if require_ai_keywords then (Inl RuntimeError, st1)
                  else let qwl = question_words question
                       in case map_err (rerank_fallback e (Some qwl)) candidates of
                            Inl err \<Rightarrow> (Inl err, st1)
                          | Inr cs \<Rightarrow>
                              (Inr (sort_key (\<lambda>c. - c_score c) cs, Some (dedup_first [] qwl)), st1))"


section \<open>Tie-breaking by keyword mentions\<close>

definition tokenize_query_keywords :: "ustr \<Rightarrow> ustr list option \<Rightarrow> ustr list" where
  "tokenize_query_keywords question extracted_keywords =
     (case extracted_keywords of
        Some (k # ks) \<Rightarrow>
          dedup_first []
            (concat (map (\<lambda>kw. filter (\<lambda>t. t \<noteq> [])
                                  (map py_strip (py_split (normalize_text kw 3)))) (k # ks)))
      | _ \<Rightarrow>
          let base = question_words question;
              expanded = concat (map (\<lambda>w. if py_startswith [VAV] w \<and> length w > 2
                                            then [w, tl w] else [w]) base)
          in dedup_first [] (filter (\<lambda>t. t \<noteq> []) expanded))"

fun count_token :: "ustr \<Rightarrow> nat \<Rightarrow> bool \<Rightarrow> ustr \<Rightarrow> nat" where
  \<comment> \<open>the number of matches of the escaped token between the lookarounds \<open>(?<!\S)\<close> and
      \<open>(?!\S)\<close>; the flag says that the previous character is absent or white space\<close>
  "count_token tok k prev_ok [] = 0"
| "count_token tok (Suc k) prev_ok (c # cs) = count_token tok k (py_isspace c) cs"
| "count_token tok 0 prev_ok (c # cs) =
     (if prev_ok \<and> py_startswith tok (c # cs)
         \<and> (case drop (length tok) (c # cs) of [] \<Rightarrow> True | d # _ \<Rightarrow> py_isspace d)
      then Suc (count_token tok (length tok - 1) (py_isspace c) cs)
      else count_token tok 0 (py_isspace c) cs)"

definition count_keyword_mentions_in_text :: "ustr \<Rightarrow> ustr list \<Rightarrow> nat" where
  "count_keyword_mentions_in_text text tokens =
     (if text = [] \<or> tokens = [] then 0
      else let norm_text = normalize_text text 3
           in if norm_text = [] then 0
              else sum_list (map (\<lambda>tok. if tok = [] then 0 else count_token tok 0 True norm_text)
                               tokens))"

definition rank_ties_by_keyword_mentions :: "candidate list \<Rightarrow> ustr list \<Rightarrow> candidate list" where
  \<comment> \<open>a stable sort by \<open>(score, mentions)\<close>, descending\<close>
  "rank_ties_by_keyword_mentions results tokens =
     (if results = [] \<or> tokens = [] then results
      else sort_key (\<lambda>r. (- c_score r, - int (count_keyword_mentions_in_text (c_text r) tokens)))
             results)"

section \<open>Semantic blending\<close>

fun isqrt :: "nat \<Rightarrow> nat" where
  \<comment> \<open>the integer square root\<close>
  "isqrt n = (if n < 2 then n
              else let r = 2 * isqrt (n div 4) in if (r + 1) * (r + 1) \<le> n then r + 1 else r)"

declare isqrt.simps [simp del]

definition fsqrt :: "rat \<Rightarrow> rat" where
  \<comment> \<open>the correctly rounded square root of a non-negative float\<close>
  "fsqrt x =
     (if x \<le> 0 then 0
      else let k = ilog2 x div 2;
               u = pow2 (k - 52);
               y = x / (u * u);
               f = isqrt (nat \<lfloor>y\<rfloor>);
               h = (of_nat f + 1 / 2) * (of_nat f + 1 / 2);
               n = (if y < h then f else if h < y then f + 1 else if even f then f else f + 1)
           in of_nat n * u)"

definition np_dot :: "rat list \<Rightarrow> rat list \<Rightarrow> rat option" where
  \<comment> \<open>\<open>np.dot\<close> of two vectors, accumulated in index order (the library may use another
      order of summation, which can change the last bits); vectors of different lengths
      raise an exception\<close>
  "np_dot v w =
     (if length v \<noteq> length w then None
      else Some (foldl (\<lambda>acc (a, b). fadd acc (fmul a b)) 0 (zip v w)))"

definition np_norm :: "rat list \<Rightarrow> rat" where
  \<comment> \<open>\<open>np.linalg.norm\<close>: the square root of the sum of squares\<close>
  "np_norm v = fsqrt (foldl (\<lambda>acc a. fadd acc (fmul a a)) 0 v)"

definition cosine_similarity :: "env \<Rightarrow> rat list \<Rightarrow> rat list \<Rightarrow> rat option" where
  \<comment> \<open>\<open>None\<close> when the call raises\<close>
  "cosine_similarity e vec1 vec2 =
     (if \<not> has_numpy e then Some 0
      else case np_dot vec1 vec2 of
             None \<Rightarrow> None
           | Some dot_product \<Rightarrow>
               let norm1 = np_norm vec1; norm2 = np_norm vec2
               in if norm1 = 0 \<or> norm2 = 0 then Some 0
                  else Some (fdiv dot_product (fmul norm1 norm2)))"

definition has_embedding :: "candidate \<Rightarrow> bool" where
  \<comment> \<open>the truth value of \<open>c.get('embedding')\<close>\<close>
  "has_embedding c \<longleftrightarrow> (case c_embedding c of None \<Rightarrow> False | Some v \<Rightarrow> v \<noteq> [])"

definition blend_score :: "int \<Rightarrow> int \<Rightarrow> int" where
  \<comment> \<open>\<open>int(score * 0.7 + semantic_score * 0.3)\<close>\<close>
  "blend_score score semantic_score =
     py_int (fadd (fmul (rnd (of_int score)) (rnd (7 / 10)))
                  (fmul (rnd (of_int semantic_score)) (rnd (3 / 10))))"

fun blend_all :: "env \<Rightarrow> rat list \<Rightarrow> candidate list \<Rightarrow> candidate list \<times> bool" where
  \<comment> \<open>the loop over the candidates with an embedding, written over the whole list: the
      candidates are updated in place, so that an exception leaves the earlier updates in
      the list; the flag is false when the loop was left by an exception\<close>
  "blend_all e qv [] = ([], True)"
| "blend_all e qv (c # cs) =
     (if \<not> has_embedding c then (case blend_all e qv cs of (cs', ok) \<Rightarrow> (c # cs', ok))
      else case cosine_similarity e qv (the (c_embedding c)) of
             None \<Rightarrow> (c # cs, False)
           | Some similarity \<Rightarrow>
               let semantic_score = py_int (fmul similarity 100);
                   c' = c\<lparr> c_score := blend_score (c_score c) semantic_score,
                           c_semantic_score := semantic_score \<rparr>
               in (case blend_all e qv cs of (cs', ok) \<Rightarrow> (c' # cs', ok)))"

definition semantic_search :: "env \<Rightarrow> ustr \<Rightarrow> candidate list \<Rightarrow> candidate list" where
  "semantic_search e question candidates =
     (if question = [] \<or> candidates = [] then candidates
      else if \<not> enable_semantic_search e then candidates
      else if filter has_embedding candidates = [] then candidates
      else if \<not> has_openai e \<or> \<not> has_numpy e then candidates
      else case embed_service e question of
             None \<Rightarrow> candidates
           | Some question_embedding \<Rightarrow>
               (case blend_all e question_embedding candidates of
                  (cs, ok) \<Rightarrow>
                    if ok then sort_key (\<lambda>c. - c_score c) (filter has_embedding cs) else cs))"

section \<open>The orchestrator\<close>

definition year_only_candidate :: "ustr \<Rightarrow> ustr \<times> maamar \<Rightarrow> candidate list" where
  "year_only_candidate year_normalized km =
     (case km of (k, m) \<Rightarrow>
        if normalize_year (m_year m) = year_normalized
        then [\<lparr> c_key = k, c_name = m_name m, c_year = Some (m_year m),
                c_filename = m_filename m, c_text = m_text m,
                c_keywords_all = m_keywords_all m, c_keywords_all_normalized = [],
                c_embedding = m_embedding m, c_score = 100, c_fuzzy_score = 0,
                c_keyword_score = 0, c_semantic_score = 0,
                c_words_found = 0, c_total_words = 0,
                c_matched_keywords = None, c_matched_keyword_counts = None,
                c_title_keywords = None \<rparr>]
        else [])"

definition general_candidate :: "ustr \<times> maamar \<Rightarrow> candidate" where
  "general_candidate km =
     (case km of (k, m) \<Rightarrow>
        \<lparr> c_key = k, c_name = m_name m, c_year = None,
          c_filename = m_filename m, c_text = m_text m,
          c_keywords_all = m_keywords_all m, c_keywords_all_normalized = [],
          c_embedding = m_embedding m, c_score = 50, c_fuzzy_score = 0,
          c_keyword_score = 0, c_semantic_score = 0,
          c_words_found = 0, c_total_words = 0,
          c_matched_keywords = None, c_matched_keyword_counts = None,
          c_title_keywords = None \<rparr>)"

definition year_matches :: "ustr \<Rightarrow> candidate \<Rightarrow> bool" where
  \<comment> \<open>the year filter of the title branch, with its fallback to a year inside the name\<close>
  "year_matches year_normalized r =
     (case (case c_year r of
              Some y \<Rightarrow> if y \<noteq> [] then Some y else re_search match_year (c_name r)
            | None \<Rightarrow> re_search match_year (c_name r)) of
        None \<Rightarrow> False
      | Some maamar_year \<Rightarrow> normalize_year maamar_year = year_normalized)"

definition words_percentage :: "candidate \<Rightarrow> rat" where
  "words_percentage r =
     (if c_total_words r > 0 then fmul (fdiv (of_nat (c_words_found r)) (of_nat (c_total_words r))) 100
      else if c_words_found r = 0 then 0 else 100)"

definition title_keyword_info :: "env \<Rightarrow> ustr list \<Rightarrow> candidate \<Rightarrow> candidate" where
  \<comment> \<open>the helper fields that the title branch stores on every result\<close>
  "title_keyword_info e extracted_keywords r =
     (let keyword_counts = count_phrase_mentions_in_text e (c_text r) extracted_keywords;
          keywords_found_count =
            length (filter (\<lambda>kw. dict_get0 keyword_counts kw > 0) extracted_keywords);
          mentions = sum_list (map (dict_get0 keyword_counts) extracted_keywords)
      in r\<lparr> c_title_keywords :=
             Some (keywords_found_count, mentions, keyword_counts,
                   keywords_found_count = length extracted_keywords) \<rparr>)"

definition title_sort_key :: "candidate \<Rightarrow> rat \<times> int \<times> int" where
  \<comment> \<open>the source sorts by \<open>(words_percentage, has_all, total_mentions)\<close>, descending\<close>
  "title_sort_key r =
     (case c_title_keywords r of
        Some (cnt, mentions, counts, has_all) \<Rightarrow>
          (- words_percentage r, - (if has_all then 1 else 0), - int mentions)
      | None \<Rightarrow> (- words_percentage r, 0, 0))"

definition title_filtered :: "env \<Rightarrow> ustr \<Rightarrow> ustr \<Rightarrow> int \<Rightarrow> candidate list" where
  \<comment> \<open>word-set matching cut to \<open>top_n\<close>, then the year filter\<close>
  "title_filtered e clean_name year_normalized max_results =
     (let top_n = (if max_results > 0 then max_results * 2 else 1000);
          results = mara_makom_word_match_search e clean_name top_n
      in if year_normalized \<noteq> [] \<and> results \<noteq> []
         then filter (year_matches year_normalized) results else results)"

definition title_ranked ::
  "env \<Rightarrow> kw_state \<Rightarrow> ustr \<Rightarrow> candidate list \<Rightarrow> candidate list \<times> kw_state" where
  \<comment> \<open>the ranking of a non-empty filtered list by the question\<close>
  "title_ranked e st question results =
     (if question \<noteq> []
      then (case extract_keywords_from_question e st question of
              (Some (k # ks), st1) \<Rightarrow>
                (sort_key title_sort_key (map (title_keyword_info e (k # ks)) results), st1)
            | (_, st1) \<Rightarrow> (sort_key (\<lambda>r. - int (c_words_found r)) results, st1))
      else (results, st))"

definition title_select :: "candidate list \<Rightarrow> candidate list \<Rightarrow> int \<Rightarrow> candidate list" where
  \<comment> \<open>the perfect-match rule; \<open>filtered\<close> is the list before the ranking by the question,
      from which the source computes \<open>is_perfect\<close>\<close>
  "title_select filtered ranked max_results =
     (let max_words_found = Max (set (map c_words_found filtered));
          total_words = c_total_words (hd filtered);
          is_perfect = (total_words \<noteq> 0 \<and> max_words_found \<ge> total_words)
      in if is_perfect
         then let perfect_results = filter (\<lambda>r. c_words_found r \<ge> total_words) ranked
              in if max_results \<le> 0 then perfect_results else py_take max_results perfect_results
         else py_take (if max_results > 0 then max_results else 3) ranked)"


definition rerank_by_question ::
  "env \<Rightarrow> kw_state \<Rightarrow> ustr \<Rightarrow> bool \<Rightarrow> candidate list
    \<Rightarrow> (py_error + candidate list) \<times> kw_state" where
  \<comment> \<open>keyword reranking, the optional semantic blend and the tie-break, as the year-only
      and the question-only branches chain them\<close>
  "rerank_by_question e st question use_semantic results =
     (case keyword_search e st question results False None of
        (Inl err, st1) \<Rightarrow> (Inl err, st1)
      | (Inr (rs, extracted_keywords), st1) \<Rightarrow>
          let rs2 = (if use_semantic \<and> (\<exists>r \<in> set rs. has_embedding r)
                     then semantic_search e question rs else rs);
              tokens = tokenize_query_keywords question extracted_keywords
          in (Inr (rank_ties_by_keyword_mentions rs2 tokens), st1))"

definition year_only_branch ::
  "env \<Rightarrow> kw_state \<Rightarrow> ustr \<Rightarrow> ustr \<Rightarrow> int \<Rightarrow> int \<Rightarrow> bool
    \<Rightarrow> (py_error + candidate list) \<times> kw_state" where
  "year_only_branch e st year_normalized question max_results min_score use_semantic =
     (let results = concat (map (year_only_candidate year_normalized) (maamarim e))
      in case (if question \<noteq> [] \<and> results \<noteq> []
               then rerank_by_question e st question use_semantic results
               else (Inr results, st)) of
           (Inl err, st1) \<Rightarrow> (Inl err, st1)
         | (Inr rs, st1) \<Rightarrow>
             (Inr (py_take max_results
                     (if min_score > 0 then filter (\<lambda>r. c_score r \<ge> min_score) rs else rs)),
              st1))"

definition title_branch ::
  "env \<Rightarrow> kw_state \<Rightarrow> ustr \<Rightarrow> ustr \<Rightarrow> ustr \<Rightarrow> int
    \<Rightarrow> (py_error + candidate list) \<times> kw_state" where
  "title_branch e st maamar_name year_normalized question max_results =
     (let clean_name0 = extract_maamar_name_only maamar_name;
          clean_name = (if clean_name0 = [] then maamar_name else clean_name0);
          results = title_filtered e clean_name year_normalized max_results
      in if results = [] then (Inr [], st)
         else case title_ranked e st question results of
                (ranked, st1) \<Rightarrow> (Inr (title_select results ranked max_results), st1))"

definition question_only_branch ::
  "env \<Rightarrow> kw_state \<Rightarrow> ustr \<Rightarrow> int \<Rightarrow> bool \<Rightarrow> (py_error + candidate list) \<times> kw_state" where
  "question_only_branch e st question max_results use_semantic =
     (if question = [] then (Inr [], st)
      else case rerank_by_question e st question use_semantic
                  (map general_candidate (maamarim e)) of
             (Inl err, st1) \<Rightarrow> (Inl err, st1)
           | (Inr rs, st1) \<Rightarrow> (Inr (py_take max_results rs), st1))"

definition strip_exact_quotes :: "ustr \<Rightarrow> ustr" where
  \<comment> \<open>a title wrapped in ASCII double quotes loses them; the flag \<open>exact_match_only\<close> that
      the source sets here is not read anywhere afterwards\<close>
  "strip_exact_quotes maamar_name =
     (let t = py_strip maamar_name
      in if maamar_name \<noteq> [] \<and> t \<noteq> [] \<and> hd t = DQUOTE \<and> last t = DQUOTE
         then butlast (tl t) else maamar_name)"

definition search_maamar ::
  "env \<Rightarrow> kw_state \<Rightarrow> ustr \<Rightarrow> ustr \<Rightarrow> ustr \<Rightarrow> int \<Rightarrow> int \<Rightarrow> bool
    \<Rightarrow> (py_error + candidate list) \<times> kw_state" where
  \<comment> \<open>An absent (\<open>None\<close>) year or question is the empty string: the source tests both by
      truth value only.\<close>
  "search_maamar e st maamar_name0 year0 question max_results min_score use_semantic =
     (let name1 = strip_exact_quotes maamar_name0;
          name2 = (if name1 \<noteq> [] then clean_maamar_name e (py_strip name1) else name1);
          (maamar_name, year) =
            (if name2 \<noteq> [] \<and> year0 = []
             then (case extract_year_from_text name2 of
                     (cleaned, Some extracted_year) \<Rightarrow> (cleaned, extracted_year)
                   | (cleaned, None) \<Rightarrow> (name2, year0))
             else (name2, year0));
          year_normalized = (if year \<noteq> [] then normalize_year year else []);
          has_maamar_name = (maamar_name \<noteq> [] \<and> py_strip maamar_name \<noteq> []);
          has_year_only = (year_normalized \<noteq> [] \<and> \<not> has_maamar_name)
      in if has_year_only
         then year_only_branch e st year_normalized question max_results min_score use_semantic
         else if has_maamar_name
         then title_branch e st maamar_name year_normalized question max_results
         else question_only_branch e st question max_results use_semantic)"

section \<open>Title matching: exact mode and positional fuzzy mode\<close>

fun bounded_occurs :: "(nat \<Rightarrow> bool) \<Rightarrow> ustr \<Rightarrow> bool \<Rightarrow> ustr \<Rightarrow> bool" where
  \<comment> \<open>\<open>re.search\<close> for a non-empty escaped literal between two \<open>\b\<close>: the flag says that
      the previous character is a word character\<close>
  "bounded_occurs w q prev [] = False"
| "bounded_occurs w q prev (c # cs) =
     ((py_startswith q (c # cs) \<and> prev \<noteq> w c
        \<and> w (last q) \<noteq> (case drop (length q) (c # cs) of [] \<Rightarrow> False | d # _ \<Rightarrow> w d))
      \<or> bounded_occurs w q (w c) cs)"

definition exact_candidate :: "env \<Rightarrow> ustr \<Rightarrow> ustr \<times> maamar \<Rightarrow> candidate list" where
  "exact_candidate e query_normalized km =
     (case km of (k, m) \<Rightarrow>
        if m_name m = [] then []
        else if bounded_occurs (unicode_word e) query_normalized False
                  (normalize_text (m_name m) 0)
        then [\<lparr> c_key = k, c_name = m_name m, c_year = Some (m_year m),
                c_filename = m_filename m, c_text = m_text m,
                c_keywords_all = m_keywords_all m, c_keywords_all_normalized = [],
                c_embedding = m_embedding m, c_score = 100, c_fuzzy_score = 100,
                c_keyword_score = 0, c_semantic_score = 0,
                c_words_found = 0, c_total_words = 0,
                c_matched_keywords = None, c_matched_keyword_counts = None,
                c_title_keywords = None \<rparr>]
        else [])"

definition exact_search_name :: "env \<Rightarrow> ustr \<Rightarrow> int \<Rightarrow> candidate list" where
  "exact_search_name e maamar_name top_n =
     (let query_normalized = normalize_text maamar_name 0
      in if py_strip query_normalized = [] then []
         else py_take top_n
                (sort_key (\<lambda>r. length (c_name r))
                   (concat (map (exact_candidate e query_normalized) (maamarim e)))))"

fun first_index :: "'a \<Rightarrow> 'a list \<Rightarrow> nat option" where
  \<comment> \<open>the index at which a loop over \<open>enumerate\<close> breaks on the first equal element\<close>
  "first_index x [] = None"
| "first_index x (y # ys) =
     (if x = y then Some 0 else map_option Suc (first_index x ys))"

definition word_at :: "ustr list \<Rightarrow> nat \<Rightarrow> ustr \<Rightarrow> ustr" where
  \<comment> \<open>\<open>ws[i] if i < len(ws) else default\<close>\<close>
  "word_at ws i d = (if i < length ws then ws ! i else d)"

definition match_word ::
  "nat \<Rightarrow> ustr \<Rightarrow> ustr \<Rightarrow> ustr \<Rightarrow> ustr list \<Rightarrow> ustr list \<Rightarrow> ustr list \<Rightarrow> bool \<times> bool \<times> int" where
  \<comment> \<open>the three rounds for the query word at position \<open>i\<close>: whether it was found, whether
      it was found at position \<open>i\<close>, and the penalty\<close>
  "match_word i q0 q1 q2 n0 n1 n2 =
     (case first_index q0 n0 of
        Some j \<Rightarrow> (True, i = j, 0)
      | None \<Rightarrow>
          (case (if q1 \<noteq> q0 then first_index q1 n1 else None) of
             Some j \<Rightarrow> (True, i = j, 5)
           | None \<Rightarrow>
               (case (if q2 \<noteq> q1 then first_index q2 n2 else None) of
                  Some j \<Rightarrow> (True, i = j, 5)
                | None \<Rightarrow> (False, False, 0))))"

definition match_all_words ::
  "ustr list \<Rightarrow> ustr list \<Rightarrow> ustr list \<Rightarrow> ustr list \<Rightarrow> ustr list \<Rightarrow> ustr list
    \<Rightarrow> (bool \<times> bool \<times> int) list" where
  "match_all_words qw0 qw1 qw2 n0 n1 n2 =
     map (\<lambda>i. match_word i (qw0 ! i) (word_at qw1 i (qw0 ! i)) (word_at qw2 i (qw0 ! i)) n0 n1 n2)
       [0..<length qw0]"

definition fuzzy_candidate ::
  "env \<Rightarrow> ustr list \<Rightarrow> ustr list \<Rightarrow> ustr list \<Rightarrow> ustr \<times> maamar \<Rightarrow> candidate list" where
  "fuzzy_candidate e qw0 qw1 qw2 km =
     (case km of (k, m) \<Rightarrow>
        if m_name m = [] then []
        else let name_expanded = expand_abbreviations e (m_name m);
                 n0 = py_split (normalize_text name_expanded 0);
                 n1 = py_split (normalize_text name_expanded 1);
                 n2 = py_split (normalize_text name_expanded 2)
             in if n0 = [] then []
                else let ms = match_all_words qw0 qw1 qw2 n0 n1 n2;
                         words_found_count = length (filter (\<lambda>(fnd, ordr, pen). fnd) ms);
                         words_in_order = length (filter (\<lambda>(fnd, ordr, pen). ordr) ms);
                         total_penalty = sum_list (map (\<lambda>(fnd, ordr, pen). pen) ms);
                         base_score = percent_int words_found_count (length qw0);
                         order_bonus =
                           py_int (fmul (fdiv (of_nat words_in_order) (of_nat (length qw0))) 10);
                         first_word_bonus = (if hd qw0 = hd n0 then 10 else 0);
                         score = max 0 (min 100
                                   (base_score + order_bonus + first_word_bonus - total_penalty))
                     in if words_found_count = 0 then []
                        else if score > 0
                        then [\<lparr> c_key = k, c_name = m_name m,
                                c_year = (if m_year m = [] then None else Some (m_year m)),
                                c_filename = m_filename m, c_text = m_text m,
                                c_keywords_all = m_keywords_all m, c_keywords_all_normalized = [],
                                c_embedding = m_embedding m, c_score = score,
                                c_fuzzy_score = score,
                                c_keyword_score = 0, c_semantic_score = 0,
                                c_words_found = words_found_count, c_total_words = length qw0,
                                c_matched_keywords = None, c_matched_keyword_counts = None,
                                c_title_keywords = None \<rparr>]
                        else [])"

definition fuzzy_search_name :: "env \<Rightarrow> ustr \<Rightarrow> int \<Rightarrow> candidate list" where
  "fuzzy_search_name e maamar_name top_n =
     (let maamar_name_expanded = expand_abbreviations e maamar_name;
          qw0 = py_split (normalize_text maamar_name_expanded 0);
          qw1 = py_split (normalize_text maamar_name_expanded 1);
          qw2 = py_split (normalize_text maamar_name_expanded 2)
      in if qw0 = [] then []
         else py_take top_n
                (sort_key (\<lambda>r. - c_score r)
                   (concat (map (fuzzy_candidate e qw0 qw1 qw2) (maamarim e)))))"


section \<open>Sample data\<close>

text \<open>
  A small environment for the concrete runs below: no abbreviations or aliases, no credentials
  for the keyword service, semantic search disabled, and character tables that know the ASCII
  digits and letters, the underscore and the Hebrew letters.
\<close>

definition is_ascii_digit :: "nat \<Rightarrow> bool" where
  "is_ascii_digit c \<longleftrightarrow> 0x30 \<le> c \<and> c \<le> 0x39"

definition is_basic_word :: "nat \<Rightarrow> bool" where
  "is_basic_word c \<longleftrightarrow>
     is_ascii_digit c \<or> (0x41 \<le> c \<and> c \<le> 0x5A) \<or> (0x61 \<le> c \<and> c \<le> 0x7A) \<or> c = 0x5F
     \<or> is_hebrew_letter c"

definition env0 :: env where
  "env0 = \<lparr> maamarim = [], abbreviations = [], keyword_aliases = [],
            has_requests = True, kimi_api_key = [], kimi_service = (\<lambda>n q. Transport_error),
            enable_semantic_search = False, has_openai = True, has_numpy = True,
            embed_service = (\<lambda>q. None), fuzz_ratio = (\<lambda>a b. None),
            unicode_decimal = is_ascii_digit, unicode_word = is_basic_word \<rparr>"

definition st0 :: kw_state where
  "st0 = \<lparr> kw_cache = Map.empty, kw_calls = 0 \<rparr>"

definition BATI :: ustr where
  \<comment> \<open>bet, alef, tav, yod\<close>
  "BATI = [0x05D1, 0x05D0, 0x05EA, 0x05D9]"

definition LEGANI :: ustr where
  \<comment> \<open>lamed, gimel, nun, yod\<close>
  "LEGANI = [0x05DC, 0x05D2, 0x05E0, 0x05D9]"

definition ZAKEN :: ustr where
  \<comment> \<open>zayin, qof, final nun\<close>
  "ZAKEN = [0x05D6, 0x05E7, 0x05DF]"

definition NAME_BL :: ustr where
  "NAME_BL = BATI @ [SPACE] @ LEGANI"

definition NAME_BLZ :: ustr where
  "NAME_BLZ = BATI @ [SPACE] @ LEGANI @ [SPACE] @ ZAKEN"

definition NAME_BZ :: ustr where
  "NAME_BZ = BATI @ [SPACE] @ ZAKEN"

definition YEAR_A :: ustr where
  \<comment> \<open>tav, shin, yod, alef\<close>
  "YEAR_A = [TAV, SHIN, YOD, 0x05D0]"

definition YEAR_L :: ustr where
  \<comment> \<open>tav, shin, lamed, vav\<close>
  "YEAR_L = [TAV, SHIN, 0x05DC, VAV]"

definition sample_maamar :: "ustr \<Rightarrow> ustr \<Rightarrow> maamar" where
  "sample_maamar n y = \<lparr> m_name = n, m_year = y, m_filename = [], m_text = [],
                           m_keywords_all = [], m_embedding = None \<rparr>"

definition title_candidate :: "ustr \<Rightarrow> ustr \<Rightarrow> ustr option \<Rightarrow> int \<Rightarrow> nat \<Rightarrow> nat \<Rightarrow> candidate" where
  \<comment> \<open>the candidate that word-set matching builds for a sample record\<close>
  "title_candidate k n y s found tw =
     \<lparr> c_key = k, c_name = n, c_year = y, c_filename = [], c_text = [],
       c_keywords_all = [], c_keywords_all_normalized = [], c_embedding = None,
       c_score = s, c_fuzzy_score = s, c_keyword_score = 0, c_semantic_score = 0,
       c_words_found = found, c_total_words = tw,
       c_matched_keywords = None, c_matched_keyword_counts = None, c_title_keywords = None \<rparr>"

definition env_one :: env where
  \<comment> \<open>one record, named BATI LEGANI\<close>
  "env_one = env0\<lparr> maamarim := [([0x31], sample_maamar NAME_BL [])] \<rparr>"

definition env_three :: env where
  \<comment> \<open>three records with the same name\<close>
  "env_three = env0\<lparr> maamarim := [([0x31], sample_maamar NAME_BL []),
                                     ([0x32], sample_maamar NAME_BL []),
                                     ([0x33], sample_maamar NAME_BL [])] \<rparr>"

definition env_years :: env where
  \<comment> \<open>two records of one year and a third, with a longer name, of another year\<close>
  "env_years = env0\<lparr> maamarim := [([0x31], sample_maamar NAME_BL YEAR_A),
                                     ([0x32], sample_maamar NAME_BL YEAR_A),
                                     ([0x33], sample_maamar NAME_BLZ YEAR_L)] \<rparr>"

definition FS3 :: "candidate list" where
  \<comment> \<open>the candidates for the query BATI LEGANI ZAKEN over \<open>env_three\<close>\<close>
  "FS3 = [title_candidate [0x31] NAME_BL None 66 2 3, title_candidate [0x32] NAME_BL None 66 2 3,
          title_candidate [0x33] NAME_BL None 66 2 3]"

definition env_kimi :: env where
  \<comment> \<open>credentials are present; the first request to the keyword service fails in transport,
      every later one is answered with the word ``none''\<close>
  "env_kimi = env0\<lparr> kimi_api_key := [0x6B],
                      kimi_service := (\<lambda>n q. if n = 0 then Transport_error
                                             else Http_status 200 (Some EIN)) \<rparr>"

definition DD :: ustr where
  \<comment> \<open>dalet, dalet\<close>
  "DD = [DALET, DALET]"

definition DOD :: ustr where
  \<comment> \<open>dalet, vav, dalet\<close>
  "DOD = [DALET, VAV, DALET]"

definition DYD :: ustr where
  \<comment> \<open>dalet, yod, dalet\<close>
  "DYD = [DALET, YOD, DALET]"

definition env_dod :: env where
  \<comment> \<open>one record, named DOD\<close>
  "env_dod = env0\<lparr> maamarim := [([0x31], sample_maamar DOD [])] \<rparr>"

definition clean_char :: "nat \<Rightarrow> bool" where
  \<comment> \<open>a code point that the level-0 passes of \<open>normalize_text\<close> leave alone\<close>
  "clean_char c \<longleftrightarrow> \<not> is_nikud c \<and> \<not> is_quote_glyph c \<and> \<not> is_punct c"

section \<open>Normalisation: idempotence\<close>

lemma py_split_Nil [simp]: "py_split [] = []"
  by (simp add: py_split.simps)

lemma py_split_words:
  "w \<in> set (py_split s) \<Longrightarrow> w \<noteq> [] \<and> (\<forall>c \<in> set w. \<not> py_isspace c) \<and> set w \<subseteq> set s"
proof (induction s arbitrary: w rule: py_split.induct)
  case (1 s)
  show ?case
  proof (cases "dropWhile py_isspace s")
    case Nil
    with "1.prems" show ?thesis by (simp add: py_split.simps [of s])
  next
    case (Cons c cs)
    then have nsp: "\<not> py_isspace c"
      by (metis dropWhile_eq_Cons_conv)
    have sub: "set (c # cs) \<subseteq> set s"
      using set_dropWhileD [of _ py_isspace s] Cons by auto
    from "1.prems" Cons
    consider (hd) "w = takeWhile (\<lambda>x. \<not> py_isspace x) (c # cs)"
      | (tl) "w \<in> set (py_split (dropWhile (\<lambda>x. \<not> py_isspace x) (c # cs)))"
      by (auto simp: py_split.simps [of s])
    then show ?thesis
    proof cases
      case hd
      have "w \<noteq> []" using hd nsp by simp
      moreover have "\<forall>x \<in> set w. \<not> py_isspace x"
        using hd by (auto dest: set_takeWhileD)
      moreover have "set w \<subseteq> set (c # cs)"
        using hd by (auto dest: set_takeWhileD)
      ultimately show ?thesis using sub by blast
    next
      case tl
      from "1.IH" [OF Cons tl]
      have "w \<noteq> [] \<and> (\<forall>c \<in> set w. \<not> py_isspace c)
            \<and> set w \<subseteq> set (dropWhile (\<lambda>x. \<not> py_isspace x) (c # cs))" .
      moreover have "set (dropWhile (\<lambda>x. \<not> py_isspace x) (c # cs)) \<subseteq> set (c # cs)"
        by (auto dest: set_dropWhileD)
      ultimately show ?thesis using sub by blast
    qed
  qed
qed

lemma py_split_word_append:
  assumes "w \<noteq> []" and "\<forall>c \<in> set w. \<not> py_isspace c"
  shows "py_split (w @ SPACE # rest) = w # py_split rest"
proof -
  obtain a as where w: "w = a # as" using assms(1) by (cases w) auto
  have nsp: "\<not> py_isspace a" using assms(2) w by simp
  have sp: "py_isspace SPACE" by (simp add: py_isspace_def)
  have d: "dropWhile py_isspace (w @ SPACE # rest) = w @ SPACE # rest"
    using w nsp by simp
  have t: "takeWhile (\<lambda>x. \<not> py_isspace x) (w @ SPACE # rest) = w"
    using assms(2) sp by (simp add: takeWhile_append2)
  have dd: "dropWhile (\<lambda>x. \<not> py_isspace x) (w @ SPACE # rest) = SPACE # rest"
    using assms(2) sp by (simp add: dropWhile_append2)
  have "py_split (w @ SPACE # rest) =
          takeWhile (\<lambda>x. \<not> py_isspace x) (w @ SPACE # rest)
          # py_split (dropWhile (\<lambda>x. \<not> py_isspace x) (w @ SPACE # rest))"
    using d w by (subst py_split.simps) simp
  also have "\<dots> = w # py_split (SPACE # rest)" using t dd by simp
  also have "py_split (SPACE # rest) = py_split rest"
    using sp by (simp add: py_split.simps [of "SPACE # rest"] py_split.simps [of rest])
  finally show ?thesis .
qed

lemma py_split_single:
  assumes "w \<noteq> []" and "\<forall>c \<in> set w. \<not> py_isspace c"
  shows "py_split w = [w]"
proof -
  obtain a as where w: "w = a # as" using assms(1) by (cases w) auto
  have nsp: "\<not> py_isspace a" using assms(2) w by simp
  have d: "dropWhile py_isspace w = w" using w nsp by simp
  have t: "takeWhile (\<lambda>x. \<not> py_isspace x) w = w" using assms(2) by simp
  have dd: "dropWhile (\<lambda>x. \<not> py_isspace x) w = []" using assms(2) by simp
  show ?thesis
    using d w t dd by (subst py_split.simps) simp
qed

lemma py_split_join:
  "\<forall>w \<in> set ws. w \<noteq> [] \<and> (\<forall>c \<in> set w. \<not> py_isspace c)
   \<Longrightarrow> py_split (py_join [SPACE] ws) = ws"
proof (induction ws)
  case Nil
  show ?case by simp
next
  case (Cons w ws)
  show ?case
  proof (cases ws)
    case Nil
    then show ?thesis using Cons.prems py_split_single [of w] by simp
  next
    case (Cons v vs)
    then show ?thesis
      using Cons.prems Cons.IH py_split_word_append [of w "py_join [SPACE] (v # vs)"] by simp
  qed
qed

lemma py_join_chars:
  "set (py_join [SPACE] ws) \<subseteq> \<Union> (set ` set ws) \<union> {SPACE}"
  by (induction ws rule: induct_list012) auto

lemma py_join_ends:
  assumes "\<forall>w \<in> set ws. w \<noteq> [] \<and> (\<forall>c \<in> set w. \<not> py_isspace c)"
    and "py_join [SPACE] ws \<noteq> []"
  shows "\<not> py_isspace (hd (py_join [SPACE] ws)) \<and> \<not> py_isspace (last (py_join [SPACE] ws))"
  using assms
proof (induction ws rule: induct_list012)
  case 1
  then show ?case by simp
next
  case (2 w)
  then show ?case by (cases w) (auto simp: last_in_set)
next
  case (3 w v ws)
  have v: "py_join [SPACE] (v # ws) \<noteq> []"
    using 3(3) by (cases ws) auto
  from 3 v have "\<not> py_isspace (last (py_join [SPACE] (v # ws)))" by simp
  moreover have "\<not> py_isspace (hd w)" using 3(3) by (cases w) auto
  ultimately show ?case using 3(3) v by (cases w) auto
qed

lemma dropWhile_hd_id: "xs \<noteq> [] \<Longrightarrow> \<not> P (hd xs) \<Longrightarrow> dropWhile P xs = xs"
  by (cases xs) auto

lemma py_strip_id:
  assumes "s = [] \<or> (\<not> py_isspace (hd s) \<and> \<not> py_isspace (last s))"
  shows "py_strip s = s"
proof (cases s)
  case Nil
  then show ?thesis by (simp add: py_strip_def)
next
  case (Cons a as)
  with assms have h: "\<not> py_isspace a" and l: "\<not> py_isspace (last s)" by auto
  have d: "dropWhile py_isspace s = s" using Cons h by simp
  have "rev s \<noteq> []" using Cons by simp
  moreover have "\<not> py_isspace (hd (rev s))" using l by (metis hd_rev)
  ultimately have "dropWhile py_isspace (rev s) = rev s"
    by (rule dropWhile_hd_id)
  then show ?thesis using d by (simp add: py_strip_def)
qed

lemma normalize0_fixed:
  assumes ws: "\<forall>w \<in> set ws. w \<noteq> [] \<and> (\<forall>c \<in> set w. \<not> py_isspace c \<and> clean_char c)"
    and l: "level \<le> 0"
  shows "normalize_text (py_join [SPACE] ws) level = py_join [SPACE] ws"
proof (cases "py_join [SPACE] ws = []")
  case True
  then show ?thesis by (simp add: normalize_text_def)
next
  case False
  let ?y = "py_join [SPACE] ws"
  have sp: "clean_char SPACE"
    by (simp add: clean_char_def is_nikud_def is_quote_glyph_def is_punct_def)
  have "\<forall>c \<in> set ?y. clean_char c"
    using py_join_chars [of ws] ws sp by blast
  then have f1: "filter (\<lambda>c. \<not> is_nikud c) ?y = ?y"
    and f2: "filter (\<lambda>c. \<not> is_quote_glyph c) ?y = ?y"
    and f3: "map (\<lambda>c. if is_punct c then SPACE else c) ?y = ?y"
    by (auto simp: clean_char_def map_idI)
  have sj: "py_split ?y = ws" using ws by (intro py_split_join) blast
  have "py_strip ?y = ?y"
    using py_join_ends [of ws] ws False by (intro py_strip_id) blast
  then show ?thesis
    using False l f1 f2 f3 sj by (simp add: normalize_text_def Let_def)
qed

lemma normalize0_shape:
  assumes "level \<le> 0"
  shows "\<exists>ws. normalize_text x level = py_join [SPACE] ws
            \<and> (\<forall>w \<in> set ws. w \<noteq> [] \<and> (\<forall>c \<in> set w. \<not> py_isspace c \<and> clean_char c))"
proof (cases "x = []")
  case True
  have "normalize_text x level = py_join [SPACE] []" using True by (simp add: normalize_text_def)
  then show ?thesis by (intro exI [of _ "[]"]) simp
next
  case False
  define t6 where "t6 = map (\<lambda>c. if is_punct c then SPACE else c)
     (filter (\<lambda>c. \<not> is_quote_glyph c) (filter (\<lambda>c. \<not> is_nikud c) x))"
  define ws where "ws = py_split t6"
  have sp: "clean_char SPACE"
    by (simp add: clean_char_def is_nikud_def is_quote_glyph_def is_punct_def)
  have t6c: "\<forall>c \<in> set t6. clean_char c"
    using sp by (auto simp: t6_def clean_char_def)
  have wsp: "\<forall>w \<in> set ws. w \<noteq> [] \<and> (\<forall>c \<in> set w. \<not> py_isspace c \<and> clean_char c)"
    using py_split_words [of _ t6] t6c unfolding ws_def by blast
  have "py_strip (py_join [SPACE] ws) = py_join [SPACE] ws"
    using py_join_ends [of ws] wsp by (intro py_strip_id) blast
  then have "normalize_text x level = py_join [SPACE] ws"
    using False assms by (simp add: normalize_text_def Let_def t6_def ws_def)
  then show ?thesis using wsp by blast
qed

text \<open>
  Claim C5, as amended.  Normalisation at level 0 is idempotent: normalising an already
  normalised string again at level 0 gives the same string.  (At levels 1 to 3 the elision
  of an inner vav, yod or heh replaces non-overlapping matches only, so a second pass can
  remove a letter that the first pass left; see the counterexample below.)
\<close>

theorem normalize_text_level0_idempotent:
  "normalize_text (normalize_text x 0) 0 = normalize_text x 0"
proof -
  obtain ws where "normalize_text x 0 = py_join [SPACE] ws"
    and "\<forall>w \<in> set ws. w \<noteq> [] \<and> (\<forall>c \<in> set w. \<not> py_isspace c \<and> clean_char c)"
    using normalize0_shape [of 0 x] by auto
  then show ?thesis using normalize0_fixed [of ws 0] by simp
qed

text \<open>
  Claim C5, as stated, fails at level 1: the four letters alef, vav, vav, alef normalise to
  alef, vav, alef, which normalises again to alef, alef.
\<close>

theorem normalize_text_not_idempotent_level1:
  "normalize_text (normalize_text [0x05D0, 0x05D5, 0x05D5, 0x05D0] 1) 1
     \<noteq> normalize_text [0x05D0, 0x05D5, 0x05D5, 0x05D0] 1"
  by (simp add: normalize_text_def is_nikud_def is_quote_glyph_def is_punct_def
      is_hebrew_letter_def py_split.simps py_isspace_def py_strip_def)


section \<open>Properties of the ranking pipeline\<close>

lemma set_py_take: "set (py_take n xs) \<subseteq> set xs"
  by (auto simp: py_take_def dest: in_set_takeD)








lemma map_err_elem:
  "map_err f xs = Inr ys \<Longrightarrow> y \<in> set ys \<Longrightarrow> \<exists>x \<in> set xs. f x = Inr y"
proof (induction xs arbitrary: ys)
  case Nil
  then show ?case by simp
next
  case (Cons x xs)
  then show ?case by (auto split: sum.splits)
qed

lemma rerank_ai_score:
  assumes "rerank_ai e dedup c = Inr (c', mn, sm)"
  shows "c' = c \<or> (c_key c' = c_key c \<and> c_score c' = update_score c (c_keyword_score c'))"
  using assms
  by (auto simp: rerank_ai_def Let_def split: sum.splits prod.splits if_splits)

lemma rerank_fallback_score:
  assumes "rerank_fallback e qwl c = Inr c'"
  shows "c' = c \<or> (c_key c' = c_key c \<and> c_score c' = update_score c (c_keyword_score c'))"
  using assms
  by (auto simp: rerank_fallback_def Let_def split: option.splits if_splits)


lemma set_sort_key_fst:
  fixes cs :: "('a \<times> 'b \<times> 'c) list"
  shows "r \<in> set (map fst (sort_key k cs)) \<Longrightarrow> \<exists>mn sm. (r, mn, sm) \<in> set cs"
proof -
  assume "r \<in> set (map fst (sort_key k cs))"
  then have "r \<in> fst ` set cs" by simp
  then obtain x where "x \<in> set cs" and "r = fst x" by blast
  then have "(r, fst (snd x), snd (snd x)) \<in> set cs" by simp
  then show ?thesis by blast
qed

text \<open>
  Claim C7, as amended.  Every candidate that keyword reranking returns is a candidate that
  entered it, either unchanged (no keyword of the question was found for it) or with a new
  score: the keyword score itself when it entered with the flat score 50 and no fuzzy score,
  and otherwise \<open>min(100, score + int((keyword_score / 100) * 20))\<close>, the bonus being cut to an
  integer by \<open>int()\<close>.
\<close>

theorem keyword_search_score:
  assumes ks: "keyword_search e st question candidates req forced = (Inr (rs, ek), st')"
    and r: "r \<in> set rs"
  shows "\<exists>c \<in> set candidates. r = c \<or>
           (c_key r = c_key c \<and>
            c_score r = (if c_fuzzy_score c = 0 \<and> c_score c = 50 then c_keyword_score r
                         else min 100 (c_score c + keyword_bonus (c_keyword_score r))))"
proof (cases "question = [] \<or> candidates = []")
  case True
  then have "rs = candidates" using ks by (simp add: keyword_search_def)
  then show ?thesis using r by blast
next
  case False
  obtain ai st1 where ai: "(case forced of Some (k # ks) \<Rightarrow> (Some (k # ks), st)
                  | _ \<Rightarrow> extract_keywords_from_question e st question) = (ai, st1)"
    by (cases "(case forced of Some (k # ks) \<Rightarrow> (Some (k # ks), st)
                  | _ \<Rightarrow> extract_keywords_from_question e st question)") auto
  have "\<exists>c \<in> set candidates.
          (\<exists>mn sm dd. rerank_ai e dd c = Inr (r, mn, sm)) \<or> (\<exists>qwl. rerank_fallback e qwl c = Inr r)"
  proof (cases ai)
    case None
    then obtain cs where "map_err (rerank_fallback e (Some (question_words question))) candidates = Inr cs"
      and "rs = sort_key (\<lambda>c. - c_score c) cs"
      using ks False ai
      by (auto simp: keyword_search_def Let_def split: if_splits sum.splits)
    then show ?thesis using r map_err_elem [of _ candidates cs r] by fastforce
  next
    case (Some kws)
    show ?thesis
    proof (cases kws)
      case Nil
      then obtain cs where "map_err (rerank_fallback e (Some (question_words question))) candidates = Inr cs"
        and "rs = sort_key (\<lambda>c. - c_score c) cs"
        using ks False ai Some
        by (auto simp: keyword_search_def Let_def split: if_splits sum.splits)
      then show ?thesis using r map_err_elem [of _ candidates cs r] by fastforce
    next
      case (Cons k kt)
      show ?thesis
      proof (cases "dedup_by_norm [] (k # kt)")
        case Nil
        then obtain cs where "map_err (rerank_fallback e None) candidates = Inr cs"
          and "rs = sort_key (\<lambda>c. - c_score c) cs"
          using ks False ai Some Cons
          by (auto simp: keyword_search_def Let_def split: if_splits sum.splits)
        then show ?thesis using r map_err_elem [of _ candidates cs r] by fastforce
      next
        case (Cons d ds)
        then obtain cs where m: "map_err (rerank_ai e (d # ds)) candidates = Inr cs"
          and "rs = map fst (sort_key (\<lambda>(c, mn, sm). (- c_score c, - int mn, - int sm)) cs)"
          using ks False ai Some \<open>kws = k # kt\<close>
          by (auto simp: keyword_search_def Let_def split: if_splits sum.splits)
        then obtain mn sm where "(r, mn, sm) \<in> set cs" using r set_sort_key_fst by fastforce
        then show ?thesis using map_err_elem [OF m] by fastforce
      qed
    qed
  qed
  then obtain c where c: "c \<in> set candidates"
    and "r = c \<or> (c_key r = c_key c \<and> c_score r = update_score c (c_keyword_score r))"
    using rerank_ai_score rerank_fallback_score by blast
  then show ?thesis unfolding update_score_def by blast
qed


lemma year_only_branch_floor:
  assumes "year_only_branch e st yn q mr ms us = (Inr rs, st')" and "0 < ms" and "r \<in> set rs"
  shows "ms \<le> c_score r"
proof -
  define results where "results = concat (map (year_only_candidate yn) (maamarim e))"
  obtain a st1 where x: "(if q \<noteq> [] \<and> results \<noteq> []
               then rerank_by_question e st q us results
               else (Inr results, st)) = (a, st1)"
    by (cases "(if q \<noteq> [] \<and> results \<noteq> []
               then rerank_by_question e st q us results
               else (Inr results, st))") auto
  have y: "year_only_branch e st yn q mr ms us =
     (case (a, st1) of
           (Inl err, st1) \<Rightarrow> (Inl err, st1)
         | (Inr rs, st1) \<Rightarrow>
             (Inr (py_take mr
                     (if ms > 0 then filter (\<lambda>r. c_score r \<ge> ms) rs else rs)),
              st1))"
    unfolding year_only_branch_def Let_def results_def [symmetric] x ..
  show ?thesis
  proof (cases a)
    case (Inl err)
    then show ?thesis using y assms(1) by simp
  next
    case (Inr xs)
    then have "rs = py_take mr (filter (\<lambda>r. c_score r \<ge> ms) xs)"
      using y assms(1,2) by simp
    then have "r \<in> set (py_take mr (filter (\<lambda>r. c_score r \<ge> ms) xs))"
      using assms(3) by simp
    then have "r \<in> set (filter (\<lambda>r. c_score r \<ge> ms) xs)"
      by (rule subsetD [OF set_py_take])
    then show ?thesis by simp
  qed
qed

lemma normalize_year_Nil [simp]: "normalize_year [] = []"
  by (simp add: normalize_year_def)

lemma strip_exact_quotes_Nil [simp]: "strip_exact_quotes [] = []"
  by (simp add: strip_exact_quotes_def)

lemma search_maamar_no_title:
  "search_maamar e st [] year q mr ms us =
     (if normalize_year year \<noteq> [] then year_only_branch e st (normalize_year year) q mr ms us
      else question_only_branch e st q mr us)"
proof (cases "year = []")
  case True
  then show ?thesis by (simp add: search_maamar_def)
next
  case False
  then show ?thesis by (simp add: search_maamar_def)
qed


text \<open>
  Claim C4, as amended.  In the year-only branch (no title, a year that is not empty after
  normalisation) a positive \<open>min_score\<close> is a floor: every returned candidate has a score of
  at least \<open>min_score\<close>.  In the question-only branch (no title, no year) \<open>min_score\<close> is not
  read: the search returns what it returns for \<open>min_score = 0\<close>.
\<close>

theorem min_score_floor:
  "(search_maamar e st [] year q mr ms us = (Inr rs, st') \<and> normalize_year year \<noteq> []
      \<and> 0 < ms \<and> r \<in> set rs \<longrightarrow> ms \<le> c_score r)
   \<and> search_maamar e st [] [] q mr ms us = search_maamar e st [] [] q mr 0 us"
proof
  show "search_maamar e st [] year q mr ms us = (Inr rs, st') \<and> normalize_year year \<noteq> []
      \<and> 0 < ms \<and> r \<in> set rs \<longrightarrow> ms \<le> c_score r"
  proof
    assume a: "search_maamar e st [] year q mr ms us = (Inr rs, st') \<and> normalize_year year \<noteq> []
      \<and> 0 < ms \<and> r \<in> set rs"
    then have "year_only_branch e st (normalize_year year) q mr ms us = (Inr rs, st')"
      by (auto simp: search_maamar_no_title)
    then show "ms \<le> c_score r" using a year_only_branch_floor by metis
  qed
next
  show "search_maamar e st [] [] q mr ms us = search_maamar e st [] [] q mr 0 us"
    by (simp add: search_maamar_no_title)
qed

lemma first_index_None: "first_index x ys = None \<longleftrightarrow> x \<notin> set ys"
  by (induction ys) auto

text \<open>
  Claim C6, as amended.  For the query word at position \<open>i\<close> the matcher tries, in order: the
  level-0 form anywhere in the level-0 name (penalty 0); failing that, and only when the
  level-1 form of the query word differs from its level-0 form, the level-1 form in the
  level-1 name (penalty 5); failing that, and only when the level-2 form differs from the
  level-1 form, the level-2 form in the level-2 name.  The first hit wins, and the word counts
  as in order exactly when the first position of the hit is \<open>i\<close>.  A word that no round finds
  carries no penalty.
\<close>

theorem match_word_rounds:
  assumes "match_word i q0 q1 q2 n0 n1 n2 = (found, in_order, penalty)"
  shows "(q0 \<in> set n0 \<longrightarrow>
            found \<and> penalty = 0 \<and> (in_order \<longleftrightarrow> first_index q0 n0 = Some i))
    \<and> (q0 \<notin> set n0 \<and> q1 \<noteq> q0 \<and> q1 \<in> set n1 \<longrightarrow>
            found \<and> penalty = 5 \<and> (in_order \<longleftrightarrow> first_index q1 n1 = Some i))
    \<and> (q0 \<notin> set n0 \<and> (q1 = q0 \<or> q1 \<notin> set n1) \<and> q2 \<noteq> q1 \<and> q2 \<in> set n2 \<longrightarrow>
            found \<and> (in_order \<longleftrightarrow> first_index q2 n2 = Some i))
    \<and> (q0 \<notin> set n0 \<and> (q1 = q0 \<or> q1 \<notin> set n1) \<and> (q2 = q1 \<or> q2 \<notin> set n2) \<longrightarrow>
            \<not> found \<and> \<not> in_order \<and> penalty = 0)"
  using assms first_index_None [of q0 n0] first_index_None [of q1 n1] first_index_None [of q2 n2]
  by (auto simp: match_word_def split: option.splits if_splits)

text \<open>
  Claim C10.  The keyword-extraction adapter changes its cache only when the service call
  succeeded (status 200 with a readable body), and then it does not return the failure
  signal.  On a cache miss, a missing dependency, missing credentials, a transport failure
  or a status other than 200 give the failure signal and leave the cache as it was.  After a
  failure the next call for the same question reaches the service again: when that request
  succeeds, the call returns keywords and has issued one more request.
\<close>

theorem extract_keywords_cache:
  assumes "extract_keywords_from_question e st q = (res, st')"
  shows "(kw_cache st' \<noteq> kw_cache st \<longrightarrow>
            res \<noteq> None \<and> has_requests e \<and> kimi_api_key e \<noteq> []
            \<and> (\<exists>content. kimi_service e (kw_calls st) q = Http_status 200 (Some content)))
    \<and> ((py_strip q = [] \<or> kw_cache st (py_strip q) = None)
        \<and> (\<not> has_requests e \<or> kimi_api_key e = []
            \<or> kimi_service e (kw_calls st) q = Transport_error
            \<or> (\<exists>code body. kimi_service e (kw_calls st) q = Http_status code body \<and> code \<noteq> 200))
        \<longrightarrow> res = None \<and> kw_cache st' = kw_cache st)
    \<and> (res = None \<and> has_requests e \<and> kimi_api_key e \<noteq> []
        \<and> (\<exists>content. kimi_service e (kw_calls st') q = Http_status 200 (Some content))
        \<longrightarrow> fst (extract_keywords_from_question e st' q) \<noteq> None
            \<and> kw_calls (snd (extract_keywords_from_question e st' q)) = Suc (kw_calls st'))"
proof -
  note defs = extract_keywords_from_question_def Let_def
  have c1: "kw_cache st' \<noteq> kw_cache st \<longrightarrow>
            res \<noteq> None \<and> has_requests e \<and> kimi_api_key e \<noteq> []
            \<and> (\<exists>content. kimi_service e (kw_calls st) q = Http_status 200 (Some content))"
    using assms
    by (auto simp: defs split: if_splits http_response.splits option.splits)
  have c2: "(py_strip q = [] \<or> kw_cache st (py_strip q) = None)
        \<and> (\<not> has_requests e \<or> kimi_api_key e = []
            \<or> kimi_service e (kw_calls st) q = Transport_error
            \<or> (\<exists>code body. kimi_service e (kw_calls st) q = Http_status code body \<and> code \<noteq> 200))
        \<longrightarrow> res = None \<and> kw_cache st' = kw_cache st"
    using assms
    by (auto simp: defs split: if_splits http_response.splits option.splits)
  have c3: "fst (extract_keywords_from_question e st' q) \<noteq> None
            \<and> kw_calls (snd (extract_keywords_from_question e st' q)) = Suc (kw_calls st')"
    if a: "res = None" "has_requests e" "kimi_api_key e \<noteq> []"
      "kimi_service e (kw_calls st') q = Http_status 200 (Some content)" for content
  proof -
    have miss: "py_strip q = [] \<or> kw_cache st' (py_strip q) = None"
      using assms a(1)
      by (auto simp: defs split: if_splits http_response.splits option.splits)
    show ?thesis
      using a miss by (auto simp: defs)
  qed
  show ?thesis using c1 c2 c3 by blast
qed

section \<open>Concrete runs\<close>

lemmas char_defs = py_isspace_def is_hebrew_letter_def is_nikud_def is_quote_glyph_def
  is_punct_def is_year_quote_def is_ascii_digit_def

lemmas word_defs = BATI_def LEGANI_def ZAKEN_def NAME_BL_def NAME_BLZ_def NAME_BZ_def
  YEAR_A_def YEAR_L_def

lemma py_split_Cons_space: "py_isspace c \<Longrightarrow> py_split (c # s) = py_split s"
  by (simp add: py_split.simps [of "c # s"] py_split.simps [of s])

lemma py_split_Cons_word:
  "\<not> py_isspace c \<Longrightarrow> py_split (c # s) =
     (c # takeWhile (\<lambda>x. \<not> py_isspace x) s) # py_split (dropWhile (\<lambda>x. \<not> py_isspace x) s)"
  by (simp add: py_split.simps [of "c # s"])

lemmas split_eval = py_split_Cons_space py_split_Cons_word

lemma expand_abbreviations_empty: "abbreviations e = [] \<Longrightarrow> expand_abbreviations e t = t"
  by (simp add: expand_abbreviations_def)

lemma sample_words:
  "py_split NAME_BL = [BATI, LEGANI]"
  "py_split NAME_BLZ = [BATI, LEGANI, ZAKEN]"
  "py_split NAME_BZ = [BATI, ZAKEN]"
  by (simp_all add: char_defs split_eval word_defs)

lemma sample_normalized:
  "normalize_text NAME_BL 3 = NAME_BL"
  "normalize_text NAME_BLZ 3 = NAME_BLZ"
  "normalize_text NAME_BZ 3 = NAME_BZ"
  by (simp_all add: normalize_text_def char_defs split_eval py_strip_def word_defs)

lemma sample_stripped:
  "py_strip NAME_BL = NAME_BL"
  "py_strip NAME_BLZ = NAME_BLZ"
  "py_strip NAME_BZ = NAME_BZ"
  by (simp_all add: py_strip_def char_defs word_defs)

lemma sample_no_dh:
  "re_sub_delete match_dh 0 NAME_BL = NAME_BL"
  "re_sub_delete match_dh 0 NAME_BLZ = NAME_BLZ"
  "re_sub_delete match_dh 0 NAME_BZ = NAME_BZ"
  by (simp_all add: match_dh_def char_defs word_defs)

lemma sample_no_year:
  "re_search match_year NAME_BL = None"
  "re_search match_year NAME_BLZ = None"
  "re_search match_year NAME_BZ = None"
  by (simp_all add: match_year_def char_defs word_defs)

lemma sample_nonempty:
  "NAME_BL \<noteq> []" "NAME_BLZ \<noteq> []" "NAME_BZ \<noteq> []" "YEAR_A \<noteq> []" "YEAR_L \<noteq> []"
  by (simp_all add: word_defs)

lemma sample_query_words:
  assumes "abbreviations e = []"
  shows "mara_makom_query_words e NAME_BL = [BATI, LEGANI]"
    and "mara_makom_query_words e NAME_BLZ = [BATI, LEGANI, ZAKEN]"
    and "mara_makom_query_words e NAME_BZ = [BATI, ZAKEN]"
  using assms
  by (simp_all add: mara_makom_query_words_def expand_abbreviations_empty sample_no_dh
      sample_stripped sample_normalized sample_words)
    (simp_all add: word_defs)

lemma percent_facts:
  "percent_int 2 3 = 66" "percent_int 1 2 = 50" "percent_int 2 2 = 100" "percent_int 1 3 = 33"
  by code_simp+

lemma percent_facts_Suc:
  "percent_int (Suc (Suc 0)) (Suc (Suc (Suc 0))) = 66"
  "percent_int (Suc 0) (Suc (Suc 0)) = 50"
  "percent_int (Suc (Suc 0)) (Suc (Suc 0)) = 100"
  "percent_int (Suc 0) (Suc (Suc (Suc 0))) = 33"
  using percent_facts by (simp_all add: numeral_2_eq_2 numeral_3_eq_3)

lemma sample_candidate_eval:
  assumes "abbreviations e = []" and "n \<noteq> []"
    and "py_split (normalize_text n 3) = nw"
    and "filter (\<lambda>w. w \<in> set nw) qw = fw" and "fw \<noteq> []" and "qw \<noteq> []"
    and "percent_int (length fw) (length qw) = s"
    and "yv = (if y \<noteq> [] then Some y else re_search match_year n)"
  shows "mara_makom_candidate e qw (k, sample_maamar n y)
           = [title_candidate k n yv s (length fw) (length qw)]"
  using assms
  by (simp add: mara_makom_candidate_def sample_maamar_def title_candidate_def
      expand_abbreviations_empty Let_def del: filter.simps)

lemma title_candidate_sort_key [simp]:
  "mara_makom_sort_key (title_candidate k n y s f tw) = (- int f, - s, int (length n))"
  by (simp add: mara_makom_sort_key_def title_candidate_def)

lemma title_candidate_fields [simp]:
  "c_words_found (title_candidate k n y s f tw) = f"
  "c_total_words (title_candidate k n y s f tw) = tw"
  "c_score (title_candidate k n y s f tw) = s"
  "c_year (title_candidate k n y s f tw) = y"
  "c_name (title_candidate k n y s f tw) = n"
  "c_key (title_candidate k n y s f tw) = k"
  by (simp_all add: title_candidate_def)

lemma env_sample [simp]:
  "abbreviations env_one = []" "abbreviations env_three = []" "abbreviations env_years = []"
  "unicode_decimal env_one = is_ascii_digit" "unicode_decimal env_three = is_ascii_digit"
  "unicode_decimal env_years = is_ascii_digit"
  "maamarim env_one = [([0x31], sample_maamar NAME_BL [])]"
  "maamarim env_three = [([0x31], sample_maamar NAME_BL []), ([0x32], sample_maamar NAME_BL []),
                         ([0x33], sample_maamar NAME_BL [])]"
  "maamarim env_years = [([0x31], sample_maamar NAME_BL YEAR_A), ([0x32], sample_maamar NAME_BL YEAR_A),
                         ([0x33], sample_maamar NAME_BLZ YEAR_L)]"
  by (simp_all add: env_one_def env_three_def env_years_def env0_def)

lemma found_BLZ_in_BL:
  "filter (\<lambda>w. w \<in> set [BATI, LEGANI]) [BATI, LEGANI, ZAKEN] = [BATI, LEGANI]"
  by (simp add: word_defs)

lemma cand_BLZ_BL:
  assumes "abbreviations e = []"
  shows "mara_makom_candidate e [BATI, LEGANI, ZAKEN] (k, sample_maamar NAME_BL [])
           = [title_candidate k NAME_BL None 66 2 3]"
proof -
  have "mara_makom_candidate e [BATI, LEGANI, ZAKEN] (k, sample_maamar NAME_BL [])
           = [title_candidate k NAME_BL None 66 (length [BATI, LEGANI]) (length [BATI, LEGANI, ZAKEN])]"
    by (rule sample_candidate_eval [OF assms sample_nonempty(1) _ found_BLZ_in_BL])
      (simp_all add: sample_normalized sample_words sample_no_year percent_facts_Suc)
  then show ?thesis by (simp add: numeral_2_eq_2 numeral_3_eq_3)
qed





lemma search_maamar_plain_title:
  assumes "strip_exact_quotes n0 = n" and "n \<noteq> []" and "py_strip n = n"
    and "clean_maamar_name e n = n" and "extract_year_from_text n = (n, None)"
  shows "search_maamar e st n0 year q mr ms us = title_branch e st n (normalize_year year) q mr"
proof (cases "year = []")
  case True
  then show ?thesis using assms by (simp add: search_maamar_def)
next
  case False
  then show ?thesis using assms by (simp add: search_maamar_def)
qed

lemma sample_unquoted:
  "strip_exact_quotes NAME_BL = NAME_BL"
  "strip_exact_quotes NAME_BLZ = NAME_BLZ"
  "strip_exact_quotes ([DQUOTE] @ NAME_BZ @ [DQUOTE]) = NAME_BZ"
  by (simp_all add: strip_exact_quotes_def py_strip_def char_defs word_defs)

lemma sample_clean:
  assumes "unicode_decimal e = is_ascii_digit"
  shows "clean_maamar_name e NAME_BL = NAME_BL"
    and "clean_maamar_name e NAME_BLZ = NAME_BLZ"
    and "clean_maamar_name e NAME_BZ = NAME_BZ"
  using assms
  by (simp_all add: clean_maamar_name_def sample_stripped sample_nonempty)
    (simp_all add: match_maamar_def MAAMAR_def py_startswith_def char_defs split_eval word_defs)

lemma sample_year_free:
  "extract_year_from_text NAME_BL = (NAME_BL, None)"
  "extract_year_from_text NAME_BLZ = (NAME_BLZ, None)"
  "extract_year_from_text NAME_BZ = (NAME_BZ, None)"
  by (simp_all add: extract_year_from_text_def sample_no_year sample_nonempty)

lemma sample_name_only:
  "extract_maamar_name_only NAME_BL = NAME_BL"
  "extract_maamar_name_only NAME_BLZ = NAME_BLZ"
  "extract_maamar_name_only NAME_BZ = NAME_BZ"
  by (simp_all add: extract_maamar_name_only_def sample_no_dh sample_stripped sample_words
      sample_nonempty)
    (simp_all add: word_defs py_strip_def char_defs)

lemma title_branch_no_question:
  assumes "extract_maamar_name_only n = n" and "title_filtered e n yn mr = fs"
  shows "title_branch e st n yn [] mr =
           (if fs = [] then (Inr [], st) else (Inr (title_select fs fs mr), st))"
  using assms by (simp add: title_branch_def title_ranked_def Let_def)


lemma all_three_BLZ: "mara_makom_all env_three NAME_BLZ = FS3"
  by (simp add: mara_makom_all_def sample_query_words sample_nonempty cand_BLZ_BL FS3_def)

lemma filtered_three_BLZ: "title_filtered env_three NAME_BLZ [] 2 = FS3"
  by (simp add: title_filtered_def mara_makom_word_match_search_def all_three_BLZ py_take_def)
    (simp add: FS3_def)

lemma select_three: "title_select FS3 FS3 2 = take 2 FS3"
  by (simp add: title_select_def FS3_def py_take_def Let_def)

lemma search_three_BLZ:
  "search_maamar env_three st0 NAME_BLZ [] [] 2 0 False = (Inr (take 2 FS3), st0)"
proof -
  have "search_maamar env_three st0 NAME_BLZ [] [] 2 0 False
          = title_branch env_three st0 NAME_BLZ [] [] 2"
    using search_maamar_plain_title [OF sample_unquoted(2) sample_nonempty(2) sample_stripped(2)
        sample_clean(2) sample_year_free(2), of env_three st0 "[]" "[]" 2 0 False]
    by simp
  also have "\<dots> = (Inr (take 2 FS3), st0)"
    using title_branch_no_question [OF sample_name_only(2) filtered_three_BLZ, of st0]
    by (simp add: select_three)
  finally show ?thesis .
qed


text \<open>
  Claim C8, as stated, fails for the limit 2: three candidates without perfect overlap remain
  (the query has three words, each record two of them), and the search returns the first two
  of them, not the first \<open>max(2, 3) = 3\<close>.
\<close>

theorem title_limit_not_three:
  "title_filtered env_three NAME_BLZ [] 2 = FS3 \<and> length FS3 = 3
   \<and> fst (search_maamar env_three st0 NAME_BLZ [] [] 2 0 False) = Inr (take 2 FS3)
   \<and> length (take 2 FS3) = 2 \<and> max (2 :: int) 3 = 3"
  by (simp add: filtered_three_BLZ search_three_BLZ) (simp add: FS3_def)


lemma cand_BZ_BL:
  assumes "abbreviations e = []"
  shows "mara_makom_candidate e [BATI, ZAKEN] (k, sample_maamar NAME_BL [])
           = [title_candidate k NAME_BL None 50 1 2]"
proof -
  have f: "filter (\<lambda>w. w \<in> set [BATI, LEGANI]) [BATI, ZAKEN] = [BATI]"
    by (simp add: word_defs)
  have "mara_makom_candidate e [BATI, ZAKEN] (k, sample_maamar NAME_BL [])
           = [title_candidate k NAME_BL None 50 (length [BATI]) (length [BATI, ZAKEN])]"
    by (rule sample_candidate_eval [OF assms sample_nonempty(1) _ f])
      (simp_all add: sample_normalized sample_words sample_no_year percent_facts_Suc)
  then show ?thesis by (simp add: numeral_2_eq_2)
qed

lemma filtered_one_BZ:
  "title_filtered env_one NAME_BZ [] 5 = [title_candidate [0x31] NAME_BL None 50 1 2]"
  by (simp add: title_filtered_def mara_makom_word_match_search_def mara_makom_all_def
      sample_query_words sample_nonempty cand_BZ_BL py_take_def)

lemma search_quoted_BZ:
  "search_maamar env_one st0 ([DQUOTE] @ NAME_BZ @ [DQUOTE]) [] [] 5 0 True
     = (Inr [title_candidate [0x31] NAME_BL None 50 1 2], st0)"
proof -
  have "search_maamar env_one st0 ([DQUOTE] @ NAME_BZ @ [DQUOTE]) [] [] 5 0 True
          = title_branch env_one st0 NAME_BZ [] [] 5"
    using search_maamar_plain_title [OF sample_unquoted(3) sample_nonempty(3) sample_stripped(3)
        sample_clean(3) sample_year_free(3), of env_one st0 "[]" "[]" 5 0 True]
    by simp
  also have "\<dots> = (Inr [title_candidate [0x31] NAME_BL None 50 1 2], st0)"
    using title_branch_no_question [OF sample_name_only(3) filtered_one_BZ, of st0]
    by (simp add: title_select_def py_take_def Let_def)
  finally show ?thesis .
qed

lemma exact_BZ: "exact_search_name env_one NAME_BZ 10 = []"
proof -
  have n0: "normalize_text NAME_BZ 0 = NAME_BZ" "normalize_text NAME_BL 0 = NAME_BL"
    by (simp_all add: normalize_text_def char_defs split_eval py_strip_def word_defs)
  have w: "unicode_word env_one = is_basic_word" by (simp add: env_one_def env0_def)
  have b: "\<not> bounded_occurs is_basic_word NAME_BZ False NAME_BL"
    by (simp add: word_defs py_startswith_def is_basic_word_def char_defs)
  show ?thesis
    by (simp add: exact_search_name_def n0 sample_stripped sample_nonempty exact_candidate_def
        sample_maamar_def w b py_take_def)
qed

text \<open>
  Claim C2 on a concrete query: a title in double quotes, BATI ZAKEN, over a corpus whose only
  record is named BATI LEGANI.  Exact title mode finds nothing, since the query is not a
  substring of the name; the search returns the record, with the word-overlap score 50.
\<close>

theorem quoted_title_not_exact:
  "fst (search_maamar env_one st0 ([DQUOTE] @ NAME_BZ @ [DQUOTE]) [] [] 5 0 True)
     = Inr [title_candidate [0x31] NAME_BL None 50 1 2]
   \<and> exact_search_name env_one NAME_BZ 10 = []"
  using search_quoted_BZ exact_BZ by simp


lemma cand_BL_BL:
  assumes "abbreviations e = []"
  shows "mara_makom_candidate e [BATI, LEGANI] (k, sample_maamar NAME_BL YEAR_A)
           = [title_candidate k NAME_BL (Some YEAR_A) 100 2 2]"
proof -
  have f: "filter (\<lambda>w. w \<in> set [BATI, LEGANI]) [BATI, LEGANI] = [BATI, LEGANI]"
    by (simp add: word_defs)
  have "mara_makom_candidate e [BATI, LEGANI] (k, sample_maamar NAME_BL YEAR_A)
           = [title_candidate k NAME_BL (Some YEAR_A) 100 (length [BATI, LEGANI])
                (length [BATI, LEGANI])]"
    by (rule sample_candidate_eval [OF assms sample_nonempty(1) _ f])
      (simp_all add: sample_normalized sample_words sample_nonempty percent_facts_Suc)
  then show ?thesis by (simp add: numeral_2_eq_2)
qed

lemma cand_BL_BLZ:
  assumes "abbreviations e = []"
  shows "mara_makom_candidate e [BATI, LEGANI] (k, sample_maamar NAME_BLZ YEAR_L)
           = [title_candidate k NAME_BLZ (Some YEAR_L) 100 2 2]"
proof -
  have f: "filter (\<lambda>w. w \<in> set [BATI, LEGANI, ZAKEN]) [BATI, LEGANI] = [BATI, LEGANI]"
    by (simp add: word_defs)
  have "mara_makom_candidate e [BATI, LEGANI] (k, sample_maamar NAME_BLZ YEAR_L)
           = [title_candidate k NAME_BLZ (Some YEAR_L) 100 (length [BATI, LEGANI])
                (length [BATI, LEGANI])]"
    by (rule sample_candidate_eval [OF assms sample_nonempty(2) _ f])
      (simp_all add: sample_normalized sample_words sample_nonempty percent_facts_Suc)
  then show ?thesis by (simp add: numeral_2_eq_2)
qed

lemma all_years_BL:
  "mara_makom_all env_years NAME_BL =
     [title_candidate [0x31] NAME_BL (Some YEAR_A) 100 2 2,
      title_candidate [0x32] NAME_BL (Some YEAR_A) 100 2 2,
      title_candidate [0x33] NAME_BLZ (Some YEAR_L) 100 2 2]"
  by (simp add: mara_makom_all_def sample_query_words sample_nonempty cand_BL_BL cand_BL_BLZ)
    (simp add: word_defs)

lemma normalize_sample_years:
  "normalize_year YEAR_A = YEAR_A" "normalize_year YEAR_L = YEAR_L" "YEAR_A \<noteq> YEAR_L"
  by (simp_all add: normalize_year_def word_defs)

lemma filtered_years_BL: "title_filtered env_years NAME_BL YEAR_L 1 = []"
  by (simp add: title_filtered_def mara_makom_word_match_search_def all_years_BL py_take_def
      year_matches_def sample_nonempty normalize_sample_years)

lemma search_years_BL:
  "search_maamar env_years st0 NAME_BL YEAR_L [] 1 0 False = (Inr [], st0)"
proof -
  have "search_maamar env_years st0 NAME_BL YEAR_L [] 1 0 False
          = title_branch env_years st0 NAME_BL (normalize_year YEAR_L) [] 1"
    using search_maamar_plain_title [OF sample_unquoted(1) sample_nonempty(1) sample_stripped(1)
        sample_clean(1) sample_year_free(1), of env_years st0 YEAR_L "[]" 1 0 False]
    by simp
  also have "\<dots> = (Inr [], st0)"
    using title_branch_no_question [OF sample_name_only(1), of env_years YEAR_L 1 "[]" st0]
    by (simp add: normalize_sample_years filtered_years_BL)
  finally show ?thesis .
qed

text \<open>
  Claim C1 on a concrete query: the title BATI LEGANI with the year YEAR_L and the limit 1,
  over a corpus with two records of another year and a third record, of the year asked for,
  whose name holds both query words.  Word-set matching ranks the three perfect matches by
  the length of the name and keeps \<open>2 * 1\<close> of them; the year filter then removes both, and
  the search returns nothing although a record with perfect overlap and the right year
  exists.
\<close>

theorem perfect_match_lost:
  "fst (search_maamar env_years st0 NAME_BL YEAR_L [] 1 0 False) = Inr []
   \<and> title_candidate [0x33] NAME_BLZ (Some YEAR_L) 100 2 2 \<in> set (mara_makom_all env_years NAME_BL)
   \<and> year_matches (normalize_year YEAR_L) (title_candidate [0x33] NAME_BLZ (Some YEAR_L) 100 2 2)"
  by (simp add: search_years_BL all_years_BL year_matches_def sample_nonempty)

lemma extract_kimi_first:
  "extract_keywords_from_question env_kimi st0 ZAKEN = (None, st0\<lparr>kw_calls := 1\<rparr>)"
  by (simp add: extract_keywords_from_question_def env_kimi_def env0_def st0_def Let_def
      py_strip_def char_defs word_defs)

text \<open>
  Claim C10 on a concrete run: the first request fails in transport, the adapter returns the
  failure signal and leaves the cache empty; the second call for the same question issues a
  second request and returns its (empty) keyword list.
\<close>

theorem extract_keywords_cache_witness:
  "extract_keywords_from_question env_kimi st0 ZAKEN = (None, st0\<lparr>kw_calls := 1\<rparr>)
   \<and> kw_cache (st0\<lparr>kw_calls := 1\<rparr>) = kw_cache st0
   \<and> fst (extract_keywords_from_question env_kimi (st0\<lparr>kw_calls := 1\<rparr>) ZAKEN) \<noteq> None
   \<and> kw_calls (snd (extract_keywords_from_question env_kimi (st0\<lparr>kw_calls := 1\<rparr>) ZAKEN)) = 2"
proof -
  have k: "has_requests env_kimi" "kimi_api_key env_kimi \<noteq> []"
    "kimi_service env_kimi (Suc 0) ZAKEN = Http_status 200 (Some EIN)"
    "kimi_service env_kimi 0 ZAKEN = Transport_error"
    by (simp_all add: env_kimi_def env0_def)
  have s: "kw_calls st0 = 0" "kw_cache st0 (py_strip ZAKEN) = None"
    by (simp_all add: st0_def)
  from extract_keywords_cache [OF extract_kimi_first] k s
  show ?thesis by (simp add: extract_kimi_first)
qed

lemma dod_levels:
  "normalize_text DD 0 = DD" "normalize_text DD 1 = DD" "normalize_text DD 2 = DD"
  "normalize_text DOD 0 = DOD" "normalize_text DOD 1 = DD" "normalize_text DOD 2 = DD"
  "py_split DD = [DD]" "py_split DOD = [DOD]"
  by (simp_all add: normalize_text_def char_defs split_eval py_strip_def DD_def DOD_def)

lemma fuzzy_dod: "fuzzy_search_name env_dod DD 10 = []"
proof -
  have a: "abbreviations env_dod = []" "maamarim env_dod = [([0x31], sample_maamar DOD [])]"
    by (simp_all add: env_dod_def env0_def)
  have m: "match_all_words [DD] [DD] [DD] [DOD] [DD] [DD] = [(False, False, 0)]"
    by (simp add: match_all_words_def match_word_def word_at_def DD_def DOD_def)
  show ?thesis
    by (simp add: fuzzy_search_name_def fuzzy_candidate_def expand_abbreviations_empty a
        dod_levels m sample_maamar_def Let_def py_take_def)
qed

text \<open>
  Claim C6, as stated, fails: for the query word DD and a record named DOD there is no
  level-0 match, the level-1 forms are equal, and yet the matcher does not find the word (the
  record is dropped): the level-1 round is skipped because the level-1 form of the query word
  is its level-0 form.
\<close>

theorem fuzzy_level1_skipped:
  "normalize_text DD 0 \<notin> set (py_split (normalize_text DOD 0))
   \<and> normalize_text DD 1 \<in> set (py_split (normalize_text DOD 1))
   \<and> fuzzy_search_name env_dod DD 10 = []"
  by (simp add: dod_levels fuzzy_dod) (simp add: DD_def DOD_def)

text \<open>
  Four instances of the amended claim C6, one for each outcome: a level-0 hit in place, a
  level-1 hit, a level-2 hit, and a word that no round finds.
\<close>

theorem match_word_rounds_witness:
  "match_word 0 DD DD DD [DD] [DD] [DD] = (True, True, 0)
   \<and> fst (match_word 0 DOD DD DD [DD] [DD] [DD]) \<and> snd (snd (match_word 0 DOD DD DD [DD] [DD] [DD])) = 5
   \<and> fst (match_word 0 DYD DYD DD [DD] [DD] [DD])
   \<and> match_word 0 DD DD DD [DOD] [DD] [DD] = (False, False, 0)"
proof -
  obtain f1 o1 p1 where m1: "match_word 0 DD DD DD [DD] [DD] [DD] = (f1, o1, p1)"
    by (cases "match_word 0 DD DD DD [DD] [DD] [DD]") auto
  obtain f2 o2 p2 where m2: "match_word 0 DOD DD DD [DD] [DD] [DD] = (f2, o2, p2)"
    by (cases "match_word 0 DOD DD DD [DD] [DD] [DD]") auto
  obtain f3 o3 p3 where m3: "match_word 0 DYD DYD DD [DD] [DD] [DD] = (f3, o3, p3)"
    by (cases "match_word 0 DYD DYD DD [DD] [DD] [DD]") auto
  obtain f4 o4 p4 where m4: "match_word 0 DD DD DD [DOD] [DD] [DD] = (f4, o4, p4)"
    by (cases "match_word 0 DD DD DD [DOD] [DD] [DD]") auto
  have ne: "DD \<noteq> DOD" "DOD \<noteq> DD" "DYD \<noteq> DD" "DD \<noteq> DYD"
    by (simp_all add: DD_def DOD_def DYD_def)
  from match_word_rounds [OF m1] have "f1 \<and> o1 \<and> p1 = 0" by simp
  moreover from match_word_rounds [OF m2] ne have "f2 \<and> p2 = 5" by simp
  moreover from match_word_rounds [OF m3] ne have "f3" by simp
  moreover from match_word_rounds [OF m4] ne have "\<not> f4 \<and> \<not> o4 \<and> p4 = 0" by simp
  ultimately show ?thesis using m1 m2 m3 m4 by simp
qed

end
